theory Spec2Isabelle
  imports Complex_Main "HOL-Library.Word"
begin

section \<open>Embedded views: mutators, mutator stacks, view parameters, slices, embedder\<close>

text \<open>
  A shallow embedding of \<^verbatim>\<open>flutter/flow/embedded_views.h\<close>.

  Conventions of the embedding.
  \<^item> A C++ exception, or a read that the language leaves undefined, is a value
    \<open>Inl e\<close> of the sum type \<open>error + 'a\<close>.
  \<^item> \<^verbatim>\<open>float\<close> coordinates are idealised as \<open>real\<close>: no rounding, no NaN, no
    infinities.  Equality of geometry payloads is therefore HOL equality.
  \<^item> The payload types the header only names (\<^verbatim>\<open>DlRoundRect\<close>,
    \<^verbatim>\<open>DlRoundSuperellipse\<close>, \<^verbatim>\<open>DlPath\<close>, \<^verbatim>\<open>DlImageFilter\<close>) are the type
    parameters \<open>'rr\<close>, \<open>'rse\<close>, \<open>'path\<close>, \<open>'f\<close>; their \<^verbatim>\<open>operator==\<close> is
    HOL equality.
  \<^item> A private member \<^verbatim>\<open>x_\<close> of a class is the field \<open>x_m\<close> of its record (a
    name cannot end with an underscore here).
  \<^item> A non-null \<^verbatim>\<open>std::shared_ptr<T>\<close> is a record of the address of the object
    it points to and of that (immutable) object: two pointers are the same object
    exactly when their addresses agree, and dereferencing reads the pointee.  A
    pointer that may be null is an \<open>option\<close> of such a record, \<open>None\<close> being the
    null pointer; dereferencing it is the error \<open>NullDereference\<close>.
\<close>

subsection \<open>Errors\<close>

datatype error =
    TypeMismatch        \<comment> \<open>\<^verbatim>\<open>std::get\<close> on a variant that holds another alternative\<close>
  | EmptyStack          \<comment> \<open>\<^verbatim>\<open>Pop\<close> on an empty stack\<close>
  | InvalidPopToCount   \<comment> \<open>\<^verbatim>\<open>PopTo\<close> with a count above the current size\<close>
  | NullDereference     \<comment> \<open>a null pointer is dereferenced\<close>
  | NoReturnValue       \<comment> \<open>control leaves a non-void function without \<^verbatim>\<open>return\<close>\<close>

subsection \<open>Geometry payloads\<close>

record DlRect =
  rect_left :: real
  rect_top :: real
  rect_right :: real
  rect_bottom :: real

record DlSize =
  size_width :: real
  size_height :: real

text \<open>
  Modelled from the spec: \<^verbatim>\<open>DlMatrix\<close> is declared outside this header.  The spec
  allows a "2D-affine-sufficient matrix"; the record holds the six entries of the map
  \<open>(x, y) \<mapsto> (m_xx * x + m_xy * y + m_tx, m_yx * x + m_yy * y + m_ty)\<close>.
\<close>

record DlMatrix =
  m_xx :: real
  m_xy :: real
  m_tx :: real
  m_yx :: real
  m_yy :: real
  m_ty :: real

record 'a shared_ptr =
  address :: nat
  pointee :: 'a

subsection \<open>MutatorType\<close>

text \<open>
  \<^verbatim>\<open>enum class MutatorType\<close> has no initialisers: its enumerators are numbered
  \<open>0, 1, 2, ...\<close> in the order of declaration.  A value of the type is an integer of
  the underlying type, of which seven are named, so that
  \<^verbatim>\<open>static_cast<MutatorType>(n)\<close> is the constructor applied to \<open>n\<close>.
\<close>

datatype MutatorType = MutatorType (enum_value: nat)

definition kClipRect :: MutatorType where "kClipRect = MutatorType 0"
definition kClipRRect :: MutatorType where "kClipRRect = MutatorType 1"
definition kClipRSE :: MutatorType where "kClipRSE = MutatorType 2"
definition kClipPath :: MutatorType where "kClipPath = MutatorType 3"
definition kTransform :: MutatorType where "kTransform = MutatorType 4"
definition kOpacity :: MutatorType where "kOpacity = MutatorType 5"
definition kBackdropFilter :: MutatorType where "kBackdropFilter = MutatorType 6"

subsection \<open>ImageFilterMutation\<close>

text \<open>
  The constructor stores the filter pointer it is given without a check, so the
  member \<^verbatim>\<open>filter_\<close> may be null.
\<close>

record 'f ImageFilterMutation =
  filter_m :: "'f shared_ptr option"
  filter_rect_m :: DlRect

definition ImageFilterMutation_ctor ::
  "'f shared_ptr option \<Rightarrow> DlRect \<Rightarrow> 'f ImageFilterMutation" where
  "ImageFilterMutation_ctor fltr filter_rect =
     \<lparr>filter_m = fltr, filter_rect_m = filter_rect\<rparr>"

text \<open>\<^verbatim>\<open>GetFilter\<close> returns \<^verbatim>\<open>*filter_\<close>.\<close>

definition GetFilter :: "'f ImageFilterMutation \<Rightarrow> error + 'f" where
  "GetFilter m =
     (case filter_m m of
        None \<Rightarrow> Inl NullDereference
      | Some p \<Rightarrow> Inr (pointee p))"

definition GetFilterRect :: "'f ImageFilterMutation \<Rightarrow> DlRect" where
  "GetFilterRect m = filter_rect_m m"

text \<open>
  \<^verbatim>\<open>operator==\<close> evaluates \<^verbatim>\<open>*filter_ == *other.filter_ && filter_rect_ ==
  other.filter_rect_\<close>: both filter pointers are dereferenced before the filters are
  compared, by value, and the rectangles are compared after that.
\<close>

definition ImageFilterMutation_eq ::
  "'f ImageFilterMutation \<Rightarrow> 'f ImageFilterMutation \<Rightarrow> error + bool" where
  "ImageFilterMutation_eq a b =
     (case filter_m a of
        None \<Rightarrow> Inl NullDereference
      | Some p \<Rightarrow>
          (case filter_m b of
             None \<Rightarrow> Inl NullDereference
           | Some q \<Rightarrow> Inr (pointee p = pointee q \<and> filter_rect_m a = filter_rect_m b)))"

text \<open>The negation \<^verbatim>\<open>!\<close> of a comparison that may have failed.\<close>

definition negation :: "error + bool \<Rightarrow> error + bool" where
  "negation r = (case r of Inl e \<Rightarrow> Inl e | Inr b \<Rightarrow> Inr (\<not> b))"

definition ImageFilterMutation_ne ::
  "'f ImageFilterMutation \<Rightarrow> 'f ImageFilterMutation \<Rightarrow> error + bool" where
  "ImageFilterMutation_ne a b = negation (ImageFilterMutation_eq a b)"

subsection \<open>Mutator\<close>

text \<open>
  The private member \<^verbatim>\<open>data_\<close> is a \<^verbatim>\<open>std::variant\<close> of seven alternatives; the
  constructors below are listed in the order of the template arguments, and
  \<open>variant_index\<close> is \<^verbatim>\<open>std::variant::index()\<close>.
\<close>

datatype ('rr, 'rse, 'path, 'f) variant =
    holds_DlRect DlRect
  | holds_DlRoundRect 'rr
  | holds_DlRoundSuperellipse 'rse
  | holds_DlPath 'path
  | holds_DlMatrix DlMatrix
  | holds_uint8 "8 word"
  | holds_ImageFilterMutation "'f ImageFilterMutation"

fun variant_index :: "('rr, 'rse, 'path, 'f) variant \<Rightarrow> nat" where
  "variant_index (holds_DlRect _) = 0"
| "variant_index (holds_DlRoundRect _) = 1"
| "variant_index (holds_DlRoundSuperellipse _) = 2"
| "variant_index (holds_DlPath _) = 3"
| "variant_index (holds_DlMatrix _) = 4"
| "variant_index (holds_uint8 _) = 5"
| "variant_index (holds_ImageFilterMutation _) = 6"

text \<open>
  \<^verbatim>\<open>std::get<T>\<close> returns the held value when the variant holds a \<open>T\<close> and throws
  \<^verbatim>\<open>std::bad_variant_access\<close> otherwise (the error \<open>TypeMismatch\<close>).
\<close>

fun get_DlRect :: "('rr, 'rse, 'path, 'f) variant \<Rightarrow> error + DlRect" where
  "get_DlRect (holds_DlRect r) = Inr r"
| "get_DlRect _ = Inl TypeMismatch"

fun get_DlRoundRect :: "('rr, 'rse, 'path, 'f) variant \<Rightarrow> error + 'rr" where
  "get_DlRoundRect (holds_DlRoundRect r) = Inr r"
| "get_DlRoundRect _ = Inl TypeMismatch"

fun get_DlRoundSuperellipse :: "('rr, 'rse, 'path, 'f) variant \<Rightarrow> error + 'rse" where
  "get_DlRoundSuperellipse (holds_DlRoundSuperellipse r) = Inr r"
| "get_DlRoundSuperellipse _ = Inl TypeMismatch"

fun get_DlPath :: "('rr, 'rse, 'path, 'f) variant \<Rightarrow> error + 'path" where
  "get_DlPath (holds_DlPath p) = Inr p"
| "get_DlPath _ = Inl TypeMismatch"

fun get_DlMatrix :: "('rr, 'rse, 'path, 'f) variant \<Rightarrow> error + DlMatrix" where
  "get_DlMatrix (holds_DlMatrix m) = Inr m"
| "get_DlMatrix _ = Inl TypeMismatch"

fun get_uint8 :: "('rr, 'rse, 'path, 'f) variant \<Rightarrow> error + 8 word" where
  "get_uint8 (holds_uint8 a) = Inr a"
| "get_uint8 _ = Inl TypeMismatch"

fun get_ImageFilterMutation ::
  "('rr, 'rse, 'path, 'f) variant \<Rightarrow> error + 'f ImageFilterMutation" where
  "get_ImageFilterMutation (holds_ImageFilterMutation m) = Inr m"
| "get_ImageFilterMutation _ = Inl TypeMismatch"

text \<open>
  \<^verbatim>\<open>operator==\<close> of \<^verbatim>\<open>std::variant\<close>: the indices agree and the held values are
  equal by the \<^verbatim>\<open>operator==\<close> of their type.
\<close>

fun variant_eq ::
  "('rr, 'rse, 'path, 'f) variant \<Rightarrow> ('rr, 'rse, 'path, 'f) variant \<Rightarrow> error + bool" where
  "variant_eq (holds_DlRect a) (holds_DlRect b) = Inr (a = b)"
| "variant_eq (holds_DlRoundRect a) (holds_DlRoundRect b) = Inr (a = b)"
| "variant_eq (holds_DlRoundSuperellipse a) (holds_DlRoundSuperellipse b) = Inr (a = b)"
| "variant_eq (holds_DlPath a) (holds_DlPath b) = Inr (a = b)"
| "variant_eq (holds_DlMatrix a) (holds_DlMatrix b) = Inr (a = b)"
| "variant_eq (holds_uint8 a) (holds_uint8 b) = Inr (a = b)"
| "variant_eq (holds_ImageFilterMutation a) (holds_ImageFilterMutation b) =
     ImageFilterMutation_eq a b"
| "variant_eq _ _ = Inr False"

record ('rr, 'rse, 'path, 'f) Mutator =
  data_m :: "('rr, 'rse, 'path, 'f) variant"

text \<open>The constructors, one per overload, and the copy constructor.\<close>

definition Mutator_copy ::
  "('rr, 'rse, 'path, 'f) Mutator \<Rightarrow> ('rr, 'rse, 'path, 'f) Mutator" where
  "Mutator_copy other = \<lparr>data_m = data_m other\<rparr>"

definition Mutator_rect :: "DlRect \<Rightarrow> ('rr, 'rse, 'path, 'f) Mutator" where
  "Mutator_rect rect = \<lparr>data_m = holds_DlRect rect\<rparr>"

definition Mutator_rrect :: "'rr \<Rightarrow> ('rr, 'rse, 'path, 'f) Mutator" where
  "Mutator_rrect rrect = \<lparr>data_m = holds_DlRoundRect rrect\<rparr>"

definition Mutator_rse :: "'rse \<Rightarrow> ('rr, 'rse, 'path, 'f) Mutator" where
  "Mutator_rse rrect = \<lparr>data_m = holds_DlRoundSuperellipse rrect\<rparr>"

definition Mutator_path :: "'path \<Rightarrow> ('rr, 'rse, 'path, 'f) Mutator" where
  "Mutator_path path = \<lparr>data_m = holds_DlPath path\<rparr>"

definition Mutator_matrix :: "DlMatrix \<Rightarrow> ('rr, 'rse, 'path, 'f) Mutator" where
  "Mutator_matrix matrix = \<lparr>data_m = holds_DlMatrix matrix\<rparr>"

definition Mutator_alpha :: "8 word \<Rightarrow> ('rr, 'rse, 'path, 'f) Mutator" where
  "Mutator_alpha alpha = \<lparr>data_m = holds_uint8 alpha\<rparr>"

definition Mutator_filter ::
  "'f shared_ptr option \<Rightarrow> DlRect \<Rightarrow> ('rr, 'rse, 'path, 'f) Mutator" where
  "Mutator_filter fltr filter_rect =
     \<lparr>data_m = holds_ImageFilterMutation (ImageFilterMutation_ctor fltr filter_rect)\<rparr>"

definition GetType :: "('rr, 'rse, 'path, 'f) Mutator \<Rightarrow> MutatorType" where
  "GetType m = MutatorType (variant_index (data_m m))"

definition GetRect :: "('rr, 'rse, 'path, 'f) Mutator \<Rightarrow> error + DlRect" where
  "GetRect m = get_DlRect (data_m m)"

definition GetRRect :: "('rr, 'rse, 'path, 'f) Mutator \<Rightarrow> error + 'rr" where
  "GetRRect m = get_DlRoundRect (data_m m)"

definition GetRSE :: "('rr, 'rse, 'path, 'f) Mutator \<Rightarrow> error + 'rse" where
  "GetRSE m = get_DlRoundSuperellipse (data_m m)"

text \<open>
  \<^verbatim>\<open>DlRoundSuperellipse::ToApproximateRoundRect\<close> is declared outside this header: it
  is the parameter \<open>ToApproximateRoundRect\<close>.
\<close>

definition GetRSEApproximation ::
  "('rse \<Rightarrow> 'rr) \<Rightarrow> ('rr, 'rse, 'path, 'f) Mutator \<Rightarrow> error + 'rr" where
  "GetRSEApproximation ToApproximateRoundRect m =
     (case GetRSE m of Inl e \<Rightarrow> Inl e | Inr rse \<Rightarrow> Inr (ToApproximateRoundRect rse))"

definition GetPath :: "('rr, 'rse, 'path, 'f) Mutator \<Rightarrow> error + 'path" where
  "GetPath m = get_DlPath (data_m m)"

definition GetMatrix :: "('rr, 'rse, 'path, 'f) Mutator \<Rightarrow> error + DlMatrix" where
  "GetMatrix m = get_DlMatrix (data_m m)"

definition GetFilterMutation ::
  "('rr, 'rse, 'path, 'f) Mutator \<Rightarrow> error + 'f ImageFilterMutation" where
  "GetFilterMutation m = get_ImageFilterMutation (data_m m)"

definition GetAlpha :: "('rr, 'rse, 'path, 'f) Mutator \<Rightarrow> error + 8 word" where
  "GetAlpha m = get_uint8 (data_m m)"

text \<open>
  \<^verbatim>\<open>DlColor::toOpacity\<close> is declared outside this header: it is the parameter
  \<open>toOpacity\<close>.
\<close>

definition GetAlphaFloat ::
  "(8 word \<Rightarrow> real) \<Rightarrow> ('rr, 'rse, 'path, 'f) Mutator \<Rightarrow> error + real" where
  "GetAlphaFloat toOpacity m =
     (case GetAlpha m of Inl e \<Rightarrow> Inl e | Inr alpha \<Rightarrow> Inr (toOpacity alpha))"

definition Mutator_eq ::
  "('rr, 'rse, 'path, 'f) Mutator \<Rightarrow> ('rr, 'rse, 'path, 'f) Mutator \<Rightarrow> error + bool" where
  "Mutator_eq a other = variant_eq (data_m a) (data_m other)"

definition Mutator_ne ::
  "('rr, 'rse, 'path, 'f) Mutator \<Rightarrow> ('rr, 'rse, 'path, 'f) Mutator \<Rightarrow> error + bool" where
  "Mutator_ne a other = negation (Mutator_eq a other)"

text \<open>
  \<^verbatim>\<open>IsClipType\<close> switches on \<^verbatim>\<open>GetType()\<close>; the switch has no default label, and a
  value that matches no label reaches the end of the function without a
  \<^verbatim>\<open>return\<close>.
\<close>

definition IsClipType :: "('rr, 'rse, 'path, 'f) Mutator \<Rightarrow> error + bool" where
  "IsClipType m =
     (let t = GetType m in
      if t = kClipRect \<or> t = kClipPath \<or> t = kClipRRect \<or> t = kClipRSE then Inr True
      else if t = kOpacity \<or> t = kTransform \<or> t = kBackdropFilter then Inr False
      else Inl NoReturnValue)"

subsection \<open>MutatorsStack\<close>

text \<open>
  The private member \<^verbatim>\<open>vector_\<close> is a \<^verbatim>\<open>std::vector\<close> of shared pointers to
  Mutators; index \<open>0\<close> is the first entry pushed.
\<close>

record ('rr, 'rse, 'path, 'f) MutatorsStack =
  vector_m :: "('rr, 'rse, 'path, 'f) Mutator shared_ptr list"

definition MutatorsStack_ctor :: "('rr, 'rse, 'path, 'f) MutatorsStack" where
  "MutatorsStack_ctor = \<lparr>vector_m = []\<rparr>"

definition MutatorsStack_is_empty :: "('rr, 'rse, 'path, 'f) MutatorsStack \<Rightarrow> bool" where
  "MutatorsStack_is_empty s \<longleftrightarrow> vector_m s = []"

definition stack_count :: "('rr, 'rse, 'path, 'f) MutatorsStack \<Rightarrow> nat" where
  "stack_count s = length (vector_m s)"

text \<open>
  \<^verbatim>\<open>operator==(const MutatorsStack&)\<close>: the sizes are compared first, then the loop
  over the index \<open>i\<close> dereferences both pointers and compares the Mutators with
  \<^verbatim>\<open>Mutator::operator!=\<close>; a comparison that fails ends the loop with its error.
  The loop only runs when the sizes agree, so both reads are in range.  The
  pointers of the vector come from \<^verbatim>\<open>std::make_shared\<close> and are never null.
\<close>

function MutatorsStack_eq_loop ::
  "('rr, 'rse, 'path, 'f) Mutator shared_ptr list \<Rightarrow>
   ('rr, 'rse, 'path, 'f) Mutator shared_ptr list \<Rightarrow> nat \<Rightarrow> error + bool" where
  "MutatorsStack_eq_loop v w i =
     (if i < length v then
        (case Mutator_ne (pointee (v ! i)) (pointee (w ! i)) of
           Inl e \<Rightarrow> Inl e
         | Inr differ \<Rightarrow>
             if differ then Inr False else MutatorsStack_eq_loop v w (i + 1))
      else Inr True)"
  by pat_completeness auto
termination
  by (relation "measure (\<lambda>(v, w, i). length v - i)") auto

definition MutatorsStack_eq ::
  "('rr, 'rse, 'path, 'f) MutatorsStack \<Rightarrow> ('rr, 'rse, 'path, 'f) MutatorsStack \<Rightarrow>
   error + bool" where
  "MutatorsStack_eq s other =
     (if length (vector_m s) \<noteq> length (vector_m other) then Inr False
      else MutatorsStack_eq_loop (vector_m s) (vector_m other) 0)"

text \<open>\<^verbatim>\<open>operator==(const std::vector<Mutator>&)\<close>: the same loop against plain Mutators.\<close>

function MutatorsStack_eq_vector_loop ::
  "('rr, 'rse, 'path, 'f) Mutator shared_ptr list \<Rightarrow>
   ('rr, 'rse, 'path, 'f) Mutator list \<Rightarrow> nat \<Rightarrow> error + bool" where
  "MutatorsStack_eq_vector_loop v w i =
     (if i < length v then
        (case Mutator_ne (pointee (v ! i)) (w ! i) of
           Inl e \<Rightarrow> Inl e
         | Inr differ \<Rightarrow>
             if differ then Inr False else MutatorsStack_eq_vector_loop v w (i + 1))
      else Inr True)"
  by pat_completeness auto
termination
  by (relation "measure (\<lambda>(v, w, i). length v - i)") auto

definition MutatorsStack_eq_vector ::
  "('rr, 'rse, 'path, 'f) MutatorsStack \<Rightarrow> ('rr, 'rse, 'path, 'f) Mutator list \<Rightarrow>
   error + bool" where
  "MutatorsStack_eq_vector s other =
     (if length (vector_m s) \<noteq> length other then Inr False
      else MutatorsStack_eq_vector_loop (vector_m s) other 0)"

definition MutatorsStack_ne ::
  "('rr, 'rse, 'path, 'f) MutatorsStack \<Rightarrow> ('rr, 'rse, 'path, 'f) MutatorsStack \<Rightarrow>
   error + bool" where
  "MutatorsStack_ne s other = negation (MutatorsStack_eq s other)"

definition MutatorsStack_ne_vector ::
  "('rr, 'rse, 'path, 'f) MutatorsStack \<Rightarrow> ('rr, 'rse, 'path, 'f) Mutator list \<Rightarrow>
   error + bool" where
  "MutatorsStack_ne_vector s other = negation (MutatorsStack_eq_vector s other)"

text \<open>
  The value of a Mutator: the Mutator with the address of its filter object
  forgotten, so that two Mutators have the same value exactly when they hold the
  same alternative with equal payloads, the filter compared through the pointer.
  A Mutator has a null filter when it holds an image filter mutation whose filter
  pointer is null.
\<close>

definition at_address_0 :: "'a shared_ptr option \<Rightarrow> 'a shared_ptr option" where
  "at_address_0 p = map_option (\<lambda>q. q\<lparr>address := 0\<rparr>) p"

fun variant_value :: "('rr, 'rse, 'path, 'f) variant \<Rightarrow> ('rr, 'rse, 'path, 'f) variant" where
  "variant_value (holds_ImageFilterMutation m) =
     holds_ImageFilterMutation (m\<lparr>filter_m := at_address_0 (filter_m m)\<rparr>)"
| "variant_value v = v"

definition Mutator_value :: "('rr, 'rse, 'path, 'f) Mutator \<Rightarrow> ('rr, 'rse, 'path, 'f) Mutator" where
  "Mutator_value m = m\<lparr>data_m := variant_value (data_m m)\<rparr>"

fun variant_null_filter :: "('rr, 'rse, 'path, 'f) variant \<Rightarrow> bool" where
  "variant_null_filter (holds_ImageFilterMutation m) = (filter_m m = None)"
| "variant_null_filter _ = False"

definition has_null_filter :: "('rr, 'rse, 'path, 'f) Mutator \<Rightarrow> bool" where
  "has_null_filter m = variant_null_filter (data_m m)"

definition stack_values ::
  "('rr, 'rse, 'path, 'f) MutatorsStack \<Rightarrow> ('rr, 'rse, 'path, 'f) Mutator list" where
  "stack_values s = map (\<lambda>p. Mutator_value (pointee p)) (vector_m s)"

definition no_null_filter :: "('rr, 'rse, 'path, 'f) MutatorsStack \<Rightarrow> bool" where
  "no_null_filter s = list_all (\<lambda>p. \<not> has_null_filter (pointee p)) (vector_m s)"

text \<open>
  Modelled from the spec: the bodies of the seven \<^verbatim>\<open>Push...\<close> members, of
  \<^verbatim>\<open>Pop\<close> and of \<^verbatim>\<open>PopTo\<close> are not in the header.  The spec: each push "appends a
  new immutable Mutator" to the back, held "by shared ownership"; \<^verbatim>\<open>Pop()\<close>
  "removes and destroys the most recently pushed entry (precondition: non-empty;
  otherwise fails with EmptyStack)"; \<^verbatim>\<open>PopTo(n)\<close> "removes entries until exactly n
  remain (precondition: n \<le> current size)", a count above the size being the
  "invalid PopTo count" of the spec's error taxonomy.  The first argument of a
  push is the address at which the new Mutator is allocated.
\<close>

definition make_shared :: "nat \<Rightarrow> 'a \<Rightarrow> 'a shared_ptr" where
  "make_shared a x = \<lparr>address = a, pointee = x\<rparr>"

definition push_back ::
  "('rr, 'rse, 'path, 'f) Mutator shared_ptr \<Rightarrow> ('rr, 'rse, 'path, 'f) MutatorsStack \<Rightarrow>
   ('rr, 'rse, 'path, 'f) MutatorsStack" where
  "push_back element s = s\<lparr>vector_m := vector_m s @ [element]\<rparr>"

definition PushClipRect ::
  "nat \<Rightarrow> DlRect \<Rightarrow> ('rr, 'rse, 'path, 'f) MutatorsStack \<Rightarrow>
   ('rr, 'rse, 'path, 'f) MutatorsStack" where
  "PushClipRect a rect s = push_back (make_shared a (Mutator_rect rect)) s"

definition PushClipRRect ::
  "nat \<Rightarrow> 'rr \<Rightarrow> ('rr, 'rse, 'path, 'f) MutatorsStack \<Rightarrow>
   ('rr, 'rse, 'path, 'f) MutatorsStack" where
  "PushClipRRect a rrect s = push_back (make_shared a (Mutator_rrect rrect)) s"

definition PushClipRSE ::
  "nat \<Rightarrow> 'rse \<Rightarrow> ('rr, 'rse, 'path, 'f) MutatorsStack \<Rightarrow>
   ('rr, 'rse, 'path, 'f) MutatorsStack" where
  "PushClipRSE a rrect s = push_back (make_shared a (Mutator_rse rrect)) s"

definition PushClipPath ::
  "nat \<Rightarrow> 'path \<Rightarrow> ('rr, 'rse, 'path, 'f) MutatorsStack \<Rightarrow>
   ('rr, 'rse, 'path, 'f) MutatorsStack" where
  "PushClipPath a path s = push_back (make_shared a (Mutator_path path)) s"

definition PushTransform ::
  "nat \<Rightarrow> DlMatrix \<Rightarrow> ('rr, 'rse, 'path, 'f) MutatorsStack \<Rightarrow>
   ('rr, 'rse, 'path, 'f) MutatorsStack" where
  "PushTransform a matrix s = push_back (make_shared a (Mutator_matrix matrix)) s"

definition PushOpacity ::
  "nat \<Rightarrow> 8 word \<Rightarrow> ('rr, 'rse, 'path, 'f) MutatorsStack \<Rightarrow>
   ('rr, 'rse, 'path, 'f) MutatorsStack" where
  "PushOpacity a alpha s = push_back (make_shared a (Mutator_alpha alpha)) s"

definition PushBackdropFilter ::
  "nat \<Rightarrow> 'f shared_ptr option \<Rightarrow> DlRect \<Rightarrow> ('rr, 'rse, 'path, 'f) MutatorsStack \<Rightarrow>
   ('rr, 'rse, 'path, 'f) MutatorsStack" where
  "PushBackdropFilter a fltr filter_rect s =
     push_back (make_shared a (Mutator_filter fltr filter_rect)) s"

definition Pop ::
  "('rr, 'rse, 'path, 'f) MutatorsStack \<Rightarrow> error + ('rr, 'rse, 'path, 'f) MutatorsStack"
  where
  "Pop s =
     (if vector_m s = [] then Inl EmptyStack
      else Inr (s\<lparr>vector_m := butlast (vector_m s)\<rparr>))"


text \<open>
  A push call with its argument, and a sequence of push calls, each paired with the
  address of the Mutator it allocates.
\<close>

datatype ('rr, 'rse, 'path, 'f) push =
    ClipRect DlRect
  | ClipRRect 'rr
  | ClipRSE 'rse
  | ClipPath 'path
  | Transform DlMatrix
  | Opacity "8 word"
  | BackdropFilter "'f shared_ptr option" DlRect

fun push_call ::
  "nat \<Rightarrow> ('rr, 'rse, 'path, 'f) push \<Rightarrow> ('rr, 'rse, 'path, 'f) MutatorsStack \<Rightarrow>
   ('rr, 'rse, 'path, 'f) MutatorsStack" where
  "push_call a (ClipRect rect) s = PushClipRect a rect s"
| "push_call a (ClipRRect rrect) s = PushClipRRect a rrect s"
| "push_call a (ClipRSE rrect) s = PushClipRSE a rrect s"
| "push_call a (ClipPath path) s = PushClipPath a path s"
| "push_call a (Transform matrix) s = PushTransform a matrix s"
| "push_call a (Opacity alpha) s = PushOpacity a alpha s"
| "push_call a (BackdropFilter fltr filter_rect) s = PushBackdropFilter a fltr filter_rect s"


text \<open>The Mutator that a push call constructs.\<close>

fun pushed_Mutator :: "('rr, 'rse, 'path, 'f) push \<Rightarrow> ('rr, 'rse, 'path, 'f) Mutator" where
  "pushed_Mutator (ClipRect rect) = Mutator_rect rect"
| "pushed_Mutator (ClipRRect rrect) = Mutator_rrect rrect"
| "pushed_Mutator (ClipRSE rrect) = Mutator_rse rrect"
| "pushed_Mutator (ClipPath path) = Mutator_path path"
| "pushed_Mutator (Transform matrix) = Mutator_matrix matrix"
| "pushed_Mutator (Opacity alpha) = Mutator_alpha alpha"
| "pushed_Mutator (BackdropFilter fltr filter_rect) = Mutator_filter fltr filter_rect"

subsection \<open>EmbeddedViewParams\<close>

text \<open>
  Modelled from the spec: \<^verbatim>\<open>DlRect::MakeSize\<close>, \<^verbatim>\<open>DlMatrix::MakeTranslation\<close> and
  \<^verbatim>\<open>DlRect::TransformAndClipBounds\<close> are declared outside this header.  The spec:
  the bounding rectangle is that of "Rect(0,0,size)"; "a bounds transform that
  accounts for clipping of the transformed rectangle against representable bounds
  (e.g. does not overflow to infinite/NaN extents)".  For an affine matrix over the
  reals every corner has a finite image and nothing is clipped: the result is the
  smallest rectangle that holds the images of the four corners.
\<close>

definition MakeSize :: "DlSize \<Rightarrow> DlRect" where
  "MakeSize sz =
     \<lparr>rect_left = 0, rect_top = 0, rect_right = size_width sz, rect_bottom = size_height sz\<rparr>"

definition MakeTranslation :: "real \<Rightarrow> real \<Rightarrow> DlMatrix" where
  "MakeTranslation tx ty =
     \<lparr>m_xx = 1, m_xy = 0, m_tx = tx, m_yx = 0, m_yy = 1, m_ty = ty\<rparr>"

definition transform_x :: "DlMatrix \<Rightarrow> real \<Rightarrow> real \<Rightarrow> real" where
  "transform_x m x y = m_xx m * x + m_xy m * y + m_tx m"

definition transform_y :: "DlMatrix \<Rightarrow> real \<Rightarrow> real \<Rightarrow> real" where
  "transform_y m x y = m_yx m * x + m_yy m * y + m_ty m"

definition min4 :: "real \<Rightarrow> real \<Rightarrow> real \<Rightarrow> real \<Rightarrow> real" where
  "min4 a b c d = min (min a b) (min c d)"

definition max4 :: "real \<Rightarrow> real \<Rightarrow> real \<Rightarrow> real \<Rightarrow> real" where
  "max4 a b c d = max (max a b) (max c d)"

definition TransformAndClipBounds :: "DlRect \<Rightarrow> DlMatrix \<Rightarrow> DlRect" where
  "TransformAndClipBounds r m =
     (let l = rect_left r; t = rect_top r; rt = rect_right r; b = rect_bottom r in
      \<lparr>rect_left = min4 (transform_x m l t) (transform_x m rt t)
                         (transform_x m l b) (transform_x m rt b),
       rect_top = min4 (transform_y m l t) (transform_y m rt t)
                        (transform_y m l b) (transform_y m rt b),
       rect_right = max4 (transform_x m l t) (transform_x m rt t)
                          (transform_x m l b) (transform_x m rt b),
       rect_bottom = max4 (transform_y m l t) (transform_y m rt t)
                           (transform_y m l b) (transform_y m rt b)\<rparr>)"

record ('rr, 'rse, 'path, 'f) EmbeddedViewParams =
  matrix_m :: DlMatrix
  size_points_m :: DlSize
  mutators_stack_m :: "('rr, 'rse, 'path, 'f) MutatorsStack"
  final_bounding_rect_m :: DlRect

text \<open>
  The three-argument constructor.  The bounds transform it calls is the parameter
  \<open>tcb\<close>, so that what is proved of the constructor holds for every such function.
\<close>

definition EmbeddedViewParams_ctor ::
  "(DlRect \<Rightarrow> DlMatrix \<Rightarrow> DlRect) \<Rightarrow> DlMatrix \<Rightarrow> DlSize \<Rightarrow>
   ('rr, 'rse, 'path, 'f) MutatorsStack \<Rightarrow> ('rr, 'rse, 'path, 'f) EmbeddedViewParams" where
  "EmbeddedViewParams_ctor tcb matrix size_points mutators_stack =
     \<lparr>matrix_m = matrix,
      size_points_m = size_points,
      mutators_stack_m = mutators_stack,
      final_bounding_rect_m = tcb (MakeSize size_points) matrix\<rparr>"

definition transformMatrix :: "('rr, 'rse, 'path, 'f) EmbeddedViewParams \<Rightarrow> DlMatrix" where
  "transformMatrix p = matrix_m p"

definition sizePoints :: "('rr, 'rse, 'path, 'f) EmbeddedViewParams \<Rightarrow> DlSize" where
  "sizePoints p = size_points_m p"

definition mutatorsStack ::
  "('rr, 'rse, 'path, 'f) EmbeddedViewParams \<Rightarrow> ('rr, 'rse, 'path, 'f) MutatorsStack" where
  "mutatorsStack p = mutators_stack_m p"

definition finalBoundingRect :: "('rr, 'rse, 'path, 'f) EmbeddedViewParams \<Rightarrow> DlRect" where
  "finalBoundingRect p = final_bounding_rect_m p"

text \<open>
  \<^verbatim>\<open>PushImageFilter\<close> forwards to \<^verbatim>\<open>PushBackdropFilter\<close> of the owned stack.  That
  member has no body in the header: it is the parameter \<open>pbf\<close>, so that what is
  proved of \<^verbatim>\<open>PushImageFilter\<close> holds for every body; \<open>PushBackdropFilter a\<close> above
  is the body modelled from the spec.
\<close>

definition PushImageFilter ::
  "('f shared_ptr option \<Rightarrow> DlRect \<Rightarrow> ('rr, 'rse, 'path, 'f) MutatorsStack \<Rightarrow>
    ('rr, 'rse, 'path, 'f) MutatorsStack) \<Rightarrow>
   'f shared_ptr option \<Rightarrow> DlRect \<Rightarrow> ('rr, 'rse, 'path, 'f) EmbeddedViewParams \<Rightarrow>
   ('rr, 'rse, 'path, 'f) EmbeddedViewParams" where
  "PushImageFilter pbf fltr filter_rect p =
     p\<lparr>mutators_stack_m := pbf fltr filter_rect (mutators_stack_m p)\<rparr>"

text \<open>
  \<^verbatim>\<open>operator==\<close> is a chain of \<^verbatim>\<open>&&\<close>: the stacks are compared only when the sizes
  are equal, and the rectangles and matrices only when the stacks are.
\<close>

definition EmbeddedViewParams_eq ::
  "('rr, 'rse, 'path, 'f) EmbeddedViewParams \<Rightarrow> ('rr, 'rse, 'path, 'f) EmbeddedViewParams \<Rightarrow>
   error + bool" where
  "EmbeddedViewParams_eq p other =
     (if size_points_m p \<noteq> size_points_m other then Inr False
      else
        (case MutatorsStack_eq (mutators_stack_m p) (mutators_stack_m other) of
           Inl e \<Rightarrow> Inl e
         | Inr same \<Rightarrow>
             Inr (same \<and> final_bounding_rect_m p = final_bounding_rect_m other \<and>
                  matrix_m p = matrix_m other)))"

subsection \<open>PostPrerollResult\<close>

datatype PostPrerollResult = kSuccess | kResubmitFrame | kSkipAndRetryFrame

subsection \<open>EmbedderViewSlice\<close>

text \<open>
  Modelled from the spec: \<^verbatim>\<open>DlIRect\<close>, \<^verbatim>\<open>DlIRect::RoundOut\<close>, \<^verbatim>\<open>DlRegion\<close>, its
  constructor from a rectangle and \<^verbatim>\<open>DlRegion::MakeIntersection\<close> are declared
  outside this header.  The spec: a region is a "set of rectangles actually
  touched"; \<^verbatim>\<open>region(query_rect)\<close> "intersects that region with a caller-supplied
  rectangle, rounding the query outward to the smallest enclosing integer rectangle
  before intersecting".  An integer rectangle holds the points \<open>(x, y)\<close> with
  \<open>left \<le> x < right\<close> and \<open>top \<le> y < bottom\<close>; a region is a list of non-empty
  integer rectangles and holds the points of their union.
\<close>

record DlIRect =
  irect_left :: int
  irect_top :: int
  irect_right :: int
  irect_bottom :: int

definition RoundOut :: "DlRect \<Rightarrow> DlIRect" where
  "RoundOut r =
     \<lparr>irect_left = \<lfloor>rect_left r\<rfloor>, irect_top = \<lfloor>rect_top r\<rfloor>,
      irect_right = \<lceil>rect_right r\<rceil>, irect_bottom = \<lceil>rect_bottom r\<rceil>\<rparr>"

definition IRect_IsEmpty :: "DlIRect \<Rightarrow> bool" where
  "IRect_IsEmpty r \<longleftrightarrow> irect_right r \<le> irect_left r \<or> irect_bottom r \<le> irect_top r"

definition IRect_Contains :: "DlIRect \<Rightarrow> int \<times> int \<Rightarrow> bool" where
  "IRect_Contains r p \<longleftrightarrow>
     irect_left r \<le> fst p \<and> fst p < irect_right r \<and>
     irect_top r \<le> snd p \<and> snd p < irect_bottom r"

definition IRect_Intersection :: "DlIRect \<Rightarrow> DlIRect \<Rightarrow> DlIRect" where
  "IRect_Intersection a b =
     \<lparr>irect_left = max (irect_left a) (irect_left b),
      irect_top = max (irect_top a) (irect_top b),
      irect_right = min (irect_right a) (irect_right b),
      irect_bottom = min (irect_bottom a) (irect_bottom b)\<rparr>"

text \<open>
  An integer rectangle encloses a rectangle when no side of it lies inside; an
  integer rectangle is within another when no side of it lies outside.
\<close>

definition IRect_encloses :: "DlIRect \<Rightarrow> DlRect \<Rightarrow> bool" where
  "IRect_encloses i r \<longleftrightarrow>
     of_int (irect_left i) \<le> rect_left r \<and> of_int (irect_top i) \<le> rect_top r \<and>
     rect_right r \<le> of_int (irect_right i) \<and> rect_bottom r \<le> of_int (irect_bottom i)"

definition IRect_within :: "DlIRect \<Rightarrow> DlIRect \<Rightarrow> bool" where
  "IRect_within a b \<longleftrightarrow>
     irect_left b \<le> irect_left a \<and> irect_top b \<le> irect_top a \<and>
     irect_right a \<le> irect_right b \<and> irect_bottom a \<le> irect_bottom b"

datatype DlRegion = Region (rects: "DlIRect list")

definition DlRegion_ctor :: "DlIRect \<Rightarrow> DlRegion" where
  "DlRegion_ctor r = (if IRect_IsEmpty r then Region [] else Region [r])"

definition Region_Contains :: "DlRegion \<Rightarrow> int \<times> int \<Rightarrow> bool" where
  "Region_Contains g p \<longleftrightarrow> list_ex (\<lambda>r. IRect_Contains r p) (rects g)"

definition Region_isEmpty :: "DlRegion \<Rightarrow> bool" where
  "Region_isEmpty g \<longleftrightarrow> rects g = []"

definition MakeUnion :: "DlRegion \<Rightarrow> DlRegion \<Rightarrow> DlRegion" where
  "MakeUnion a b = Region (rects a @ rects b)"

definition MakeIntersection :: "DlRegion \<Rightarrow> DlRegion \<Rightarrow> DlRegion" where
  "MakeIntersection a b =
     Region (filter (\<lambda>r. \<not> IRect_IsEmpty r)
       (concat (map (\<lambda>x. map (\<lambda>y. IRect_Intersection x y) (rects b)) (rects a))))"

text \<open>
  \<^verbatim>\<open>EmbedderViewSlice::region\<close>, the one member of the abstract class with a body.
  The pure virtual \<^verbatim>\<open>getRegion\<close> it calls is the parameter \<open>getRegion\<close>, a function
  of the state \<open>'s\<close> of the implementing class.
\<close>

definition region ::
  "('s \<Rightarrow> error + DlRegion) \<Rightarrow> DlRect \<Rightarrow> 's \<Rightarrow> error + DlRegion" where
  "region getRegion query s =
     (let rquery = DlRegion_ctor (RoundOut query) in
      case getRegion s of
        Inl e \<Rightarrow> Inl e
      | Inr g \<Rightarrow> Inr (MakeIntersection g rquery))"

text \<open>
  Modelled from the spec: the members of \<^verbatim>\<open>DisplayListEmbedderViewSlice\<close> have no
  body in the header.  The spec: the class "backs canvas() with a display-list
  builder and, on end_recording, bakes an immutable display-list artifact and
  releases the builder; is_empty() reports whether any drawing occurred;
  recording_ended() reports current phase"; \<^verbatim>\<open>getRegion()\<close> "returns the set of
  rectangles actually drawn into, valid only after recording ends";
  "is_empty() and recording_ended() are legal in either phase".  The recorded
  content is the list of rectangles drawn, in order; the builder and the baked
  display list are \<open>None\<close> when the pointer is null.  The spec leaves a second
  \<^verbatim>\<open>end_recording\<close> open; here it finds no builder.
\<close>

record DisplayListEmbedderViewSlice =
  builder_m :: "DlRect list option"
  display_list_m :: "DlRect list option"

definition DisplayListEmbedderViewSlice_ctor :: "DlRect \<Rightarrow> DisplayListEmbedderViewSlice" where
  "DisplayListEmbedderViewSlice_ctor view_bounds = \<lparr>builder_m = Some [], display_list_m = None\<rparr>"

definition DrawRect ::
  "DlRect \<Rightarrow> DisplayListEmbedderViewSlice \<Rightarrow> error + DisplayListEmbedderViewSlice" where
  "DrawRect r s =
     (case builder_m s of
        None \<Rightarrow> Inl NullDereference
      | Some ops \<Rightarrow> Inr (s\<lparr>builder_m := Some (ops @ [r])\<rparr>))"

definition end_recording ::
  "DisplayListEmbedderViewSlice \<Rightarrow> error + DisplayListEmbedderViewSlice" where
  "end_recording s =
     (case builder_m s of
        None \<Rightarrow> Inl NullDereference
      | Some ops \<Rightarrow> Inr (s\<lparr>display_list_m := Some ops, builder_m := None\<rparr>))"

fun drawn_region :: "DlRect list \<Rightarrow> DlRegion" where
  "drawn_region [] = Region []"
| "drawn_region (r # rs) = MakeUnion (DlRegion_ctor (RoundOut r)) (drawn_region rs)"

definition getRegion :: "DisplayListEmbedderViewSlice \<Rightarrow> error + DlRegion" where
  "getRegion s =
     (case display_list_m s of
        None \<Rightarrow> Inl NullDereference
      | Some ops \<Rightarrow> Inr (drawn_region ops))"

definition slice_is_empty :: "DisplayListEmbedderViewSlice \<Rightarrow> bool" where
  "slice_is_empty s =
     (case display_list_m s of
        Some ops \<Rightarrow> ops = []
      | None \<Rightarrow> (case builder_m s of Some ops \<Rightarrow> ops = [] | None \<Rightarrow> True))"

definition recording_ended :: "DisplayListEmbedderViewSlice \<Rightarrow> bool" where
  "recording_ended s \<longleftrightarrow> builder_m s = None"

subsection \<open>ExternalViewEmbedder\<close>

text \<open>
  The base class has one data member, the private \<^verbatim>\<open>used_this_frame_\<close>, initialised
  to \<^verbatim>\<open>false\<close>.  The state of a derived class is the extension of the record.
  Pointer arguments that the base class only passes on (the graphics context, the
  raster thread merger, the view parameters, the surface frame) are opaque handles.
\<close>

record ExternalViewEmbedder =
  used_this_frame_m :: bool

type_synonym handle = nat

definition ExternalViewEmbedder_ctor :: ExternalViewEmbedder where
  "ExternalViewEmbedder_ctor = \<lparr>used_this_frame_m = False\<rparr>"

definition SetUsedThisFrame ::
  "bool \<Rightarrow> 'x ExternalViewEmbedder_scheme \<Rightarrow> 'x ExternalViewEmbedder_scheme" where
  "SetUsedThisFrame used_this_frame e = e\<lparr>used_this_frame_m := used_this_frame\<rparr>"

definition GetUsedThisFrame :: "'x ExternalViewEmbedder_scheme \<Rightarrow> bool" where
  "GetUsedThisFrame e = used_this_frame_m e"

text \<open>The virtual members with a body in the header: each body is empty or a constant.\<close>

definition PostPrerollAction ::
  "handle \<Rightarrow> 'x ExternalViewEmbedder_scheme \<Rightarrow>
   PostPrerollResult \<times> 'x ExternalViewEmbedder_scheme" where
  "PostPrerollAction raster_thread_merger e = (kSuccess, e)"

definition EndFrame ::
  "bool \<Rightarrow> handle \<Rightarrow> 'x ExternalViewEmbedder_scheme \<Rightarrow> 'x ExternalViewEmbedder_scheme" where
  "EndFrame should_resubmit_frame raster_thread_merger e = e"

definition PushVisitedPlatformView ::
  "int \<Rightarrow> 'x ExternalViewEmbedder_scheme \<Rightarrow> 'x ExternalViewEmbedder_scheme" where
  "PushVisitedPlatformView platform_view_id e = e"

definition PushFilterToVisitedPlatformViews ::
  "'f shared_ptr option \<Rightarrow> DlRect \<Rightarrow> 'x ExternalViewEmbedder_scheme \<Rightarrow>
   'x ExternalViewEmbedder_scheme" where
  "PushFilterToVisitedPlatformViews fltr filter_rect e = e"

text \<open>
  Virtual members are answered by the derived class.  The members of the frame
  lifecycle without a body in the header (\<^verbatim>\<open>BeginFrame\<close>,
  \<^verbatim>\<open>PrerollCompositeEmbeddedView\<close> and \<^verbatim>\<open>PrepareFlutterView\<close> are pure virtual,
  \<^verbatim>\<open>SubmitFlutterView\<close> is virtual and defined elsewhere) are always supplied by
  it; the four virtual members with a body in the header may be overridden
  (\<open>Some\<close>) or not (\<open>None\<close>: the body of the header runs).  Each body is a function
  of the whole object: a derived class cannot name the private flag, but it can
  call the public \<^verbatim>\<open>SetUsedThisFrame\<close>, so an arbitrary function of the object
  covers every body.
\<close>

record ('e, 'f) overrides =
  BeginFrame_impl :: "handle \<Rightarrow> handle \<Rightarrow> 'e \<Rightarrow> 'e"
  PrerollCompositeEmbeddedView_impl :: "int \<Rightarrow> handle \<Rightarrow> 'e \<Rightarrow> 'e"
  PrepareFlutterView_impl :: "int \<times> int \<Rightarrow> real \<Rightarrow> 'e \<Rightarrow> 'e"
  SubmitFlutterView_impl :: "int \<Rightarrow> handle \<Rightarrow> handle \<Rightarrow> handle \<Rightarrow> 'e \<Rightarrow> 'e"
  PostPrerollAction_override :: "(handle \<Rightarrow> 'e \<Rightarrow> PostPrerollResult \<times> 'e) option"
  EndFrame_override :: "(bool \<Rightarrow> handle \<Rightarrow> 'e \<Rightarrow> 'e) option"
  PushVisitedPlatformView_override :: "(int \<Rightarrow> 'e \<Rightarrow> 'e) option"
  PushFilterToVisitedPlatformViews_override ::
    "('f shared_ptr option \<Rightarrow> DlRect \<Rightarrow> 'e \<Rightarrow> 'e) option"

text \<open>
  A derived class whose four bodies are empty and that overrides no member with a
  body in the header.
\<close>

definition empty_overrides :: "('e, 'f) overrides" where
  "empty_overrides =
     \<lparr>BeginFrame_impl = (\<lambda>context raster_thread_merger e. e),
      PrerollCompositeEmbeddedView_impl = (\<lambda>platform_view_id params e. e),
      PrepareFlutterView_impl = (\<lambda>frame_size device_pixel_ratio e. e),
      SubmitFlutterView_impl = (\<lambda>flutter_view_id context aiks_context frame e. e),
      PostPrerollAction_override = None,
      EndFrame_override = None,
      PushVisitedPlatformView_override = None,
      PushFilterToVisitedPlatformViews_override = None\<rparr>"

text \<open>
  A derived class keeps the flag when none of its bodies changes what
  \<^verbatim>\<open>GetUsedThisFrame\<close> returns.
\<close>

definition keeps_flag :: "('x ExternalViewEmbedder_scheme, 'f) overrides \<Rightarrow> bool" where
  "keeps_flag V \<longleftrightarrow>
     (\<forall>c m e. GetUsedThisFrame (BeginFrame_impl V c m e) = GetUsedThisFrame e) \<and>
     (\<forall>i p e. GetUsedThisFrame (PrerollCompositeEmbeddedView_impl V i p e) =
        GetUsedThisFrame e) \<and>
     (\<forall>sz d e. GetUsedThisFrame (PrepareFlutterView_impl V sz d e) = GetUsedThisFrame e) \<and>
     (\<forall>i c a f e. GetUsedThisFrame (SubmitFlutterView_impl V i c a f e) =
        GetUsedThisFrame e) \<and>
     (\<forall>body m e. PostPrerollAction_override V = Some body \<longrightarrow>
        GetUsedThisFrame (snd (body m e)) = GetUsedThisFrame e) \<and>
     (\<forall>body r m e. EndFrame_override V = Some body \<longrightarrow>
        GetUsedThisFrame (body r m e) = GetUsedThisFrame e) \<and>
     (\<forall>body i e. PushVisitedPlatformView_override V = Some body \<longrightarrow>
        GetUsedThisFrame (body i e) = GetUsedThisFrame e) \<and>
     (\<forall>body fl r e. PushFilterToVisitedPlatformViews_override V = Some body \<longrightarrow>
        GetUsedThisFrame (body fl r e) = GetUsedThisFrame e)"

text \<open>One call made on an embedder by its user, with its arguments.\<close>

datatype 'f call =
    Call_BeginFrame handle handle
  | Call_PrerollCompositeEmbeddedView int handle
  | Call_PostPrerollAction handle
  | Call_PrepareFlutterView "int \<times> int" real
  | Call_SubmitFlutterView int handle handle handle
  | Call_EndFrame bool handle
  | Call_SetUsedThisFrame bool
  | Call_PushVisitedPlatformView int
  | Call_PushFilterToVisitedPlatformViews "'f shared_ptr option" DlRect

fun dispatch ::
  "('x ExternalViewEmbedder_scheme, 'f) overrides \<Rightarrow> 'f call \<Rightarrow>
   'x ExternalViewEmbedder_scheme \<Rightarrow> 'x ExternalViewEmbedder_scheme" where
  "dispatch V (Call_BeginFrame c m) e = BeginFrame_impl V c m e"
| "dispatch V (Call_PrerollCompositeEmbeddedView i p) e =
     PrerollCompositeEmbeddedView_impl V i p e"
| "dispatch V (Call_PostPrerollAction m) e =
     (case PostPrerollAction_override V of
        None \<Rightarrow> snd (PostPrerollAction m e)
      | Some body \<Rightarrow> snd (body m e))"
| "dispatch V (Call_PrepareFlutterView sz d) e = PrepareFlutterView_impl V sz d e"
| "dispatch V (Call_SubmitFlutterView i c a f) e = SubmitFlutterView_impl V i c a f e"
| "dispatch V (Call_EndFrame r m) e =
     (case EndFrame_override V of
        None \<Rightarrow> EndFrame r m e
      | Some body \<Rightarrow> body r m e)"
| "dispatch V (Call_SetUsedThisFrame b) e = SetUsedThisFrame b e"
| "dispatch V (Call_PushVisitedPlatformView i) e =
     (case PushVisitedPlatformView_override V of
        None \<Rightarrow> PushVisitedPlatformView i e
      | Some body \<Rightarrow> body i e)"
| "dispatch V (Call_PushFilterToVisitedPlatformViews fl r) e =
     (case PushFilterToVisitedPlatformViews_override V of
        None \<Rightarrow> PushFilterToVisitedPlatformViews fl r e
      | Some body \<Rightarrow> body fl r e)"

fun run ::
  "('x ExternalViewEmbedder_scheme, 'f) overrides \<Rightarrow> 'f call list \<Rightarrow>
   'x ExternalViewEmbedder_scheme \<Rightarrow> 'x ExternalViewEmbedder_scheme" where
  "run V [] e = e"
| "run V (c # cs) e = run V cs (dispatch V c e)"

text \<open>
  What \<^verbatim>\<open>GetUsedThisFrame\<close> returns before each call of a sequence and after the
  last one: a list one longer than the sequence.
\<close>

fun used_trace ::
  "('x ExternalViewEmbedder_scheme, 'f) overrides \<Rightarrow> 'f call list \<Rightarrow>
   'x ExternalViewEmbedder_scheme \<Rightarrow> bool list" where
  "used_trace V [] e = [GetUsedThisFrame e]"
| "used_trace V (c # cs) e = GetUsedThisFrame e # used_trace V cs (dispatch V c e)"

text \<open>The last value a sequence of calls passes to \<^verbatim>\<open>SetUsedThisFrame\<close>, else \<open>b\<close>.\<close>

fun last_set :: "bool \<Rightarrow> 'f call list \<Rightarrow> bool" where
  "last_set b [] = b"
| "last_set b (Call_SetUsedThisFrame b' # cs) = last_set b' cs"
| "last_set b (_ # cs) = last_set b cs"

text \<open>
  The calls of one frame, in the order
  \<^verbatim>\<open>BeginFrame\<close>, \<^verbatim>\<open>PrerollCompositeEmbeddedView\<close>*, \<^verbatim>\<open>PostPrerollAction\<close>,
  (\<^verbatim>\<open>PrepareFlutterView\<close>, \<^verbatim>\<open>SubmitFlutterView\<close>)*, \<^verbatim>\<open>EndFrame\<close>.
\<close>

definition preroll_calls :: "(int \<times> handle) list \<Rightarrow> 'f call list" where
  "preroll_calls ps = map (\<lambda>(i, p). Call_PrerollCompositeEmbeddedView i p) ps"

fun submit_calls ::
  "(((int \<times> int) \<times> real) \<times> (int \<times> handle \<times> handle \<times> handle)) list \<Rightarrow> 'f call list" where
  "submit_calls [] = []"
| "submit_calls (((sz, d), (i, c, a, f)) # vs) =
     Call_PrepareFlutterView sz d # Call_SubmitFlutterView i c a f # submit_calls vs"

definition inner_calls ::
  "(int \<times> handle) list \<Rightarrow> handle \<Rightarrow>
   (((int \<times> int) \<times> real) \<times> (int \<times> handle \<times> handle \<times> handle)) list \<Rightarrow> 'f call list" where
  "inner_calls ps m vs = preroll_calls ps @ [Call_PostPrerollAction m] @ submit_calls vs"

definition frame_calls ::
  "handle \<Rightarrow> handle \<Rightarrow> (int \<times> handle) list \<Rightarrow> handle \<Rightarrow>
   (((int \<times> int) \<times> real) \<times> (int \<times> handle \<times> handle \<times> handle)) list \<Rightarrow> bool \<Rightarrow> handle \<Rightarrow>
   'f call list" where
  "frame_calls c m ps m' vs r m'' =
     [Call_BeginFrame c m] @ inner_calls ps m' vs @ [Call_EndFrame r m'']"

text \<open>
  The same frame as the header's comment on the class describes it: the caller sets
  the flag to true at \<^verbatim>\<open>BeginFrame\<close> and to false at \<^verbatim>\<open>EndFrame\<close>.  \<open>set_first\<close>
  says whether \<^verbatim>\<open>SetUsedThisFrame(true)\<close> comes directly before or directly after
  \<^verbatim>\<open>BeginFrame\<close>, \<open>reset_first\<close> whether \<^verbatim>\<open>SetUsedThisFrame(false)\<close> comes directly
  before or directly after \<^verbatim>\<open>EndFrame\<close>.
\<close>

definition begin_calls :: "bool \<Rightarrow> handle \<Rightarrow> handle \<Rightarrow> 'f call list" where
  "begin_calls set_first c m =
     (if set_first then [Call_SetUsedThisFrame True, Call_BeginFrame c m]
      else [Call_BeginFrame c m, Call_SetUsedThisFrame True])"

definition end_calls :: "bool \<Rightarrow> bool \<Rightarrow> handle \<Rightarrow> 'f call list" where
  "end_calls reset_first r m =
     (if reset_first then [Call_SetUsedThisFrame False, Call_EndFrame r m]
      else [Call_EndFrame r m, Call_SetUsedThisFrame False])"

definition driven_frame_calls ::
  "bool \<Rightarrow> bool \<Rightarrow> handle \<Rightarrow> handle \<Rightarrow> (int \<times> handle) list \<Rightarrow> handle \<Rightarrow>
   (((int \<times> int) \<times> real) \<times> (int \<times> handle \<times> handle \<times> handle)) list \<Rightarrow> bool \<Rightarrow> handle \<Rightarrow>
   'f call list" where
  "driven_frame_calls set_first reset_first c m ps m' vs r m'' =
     begin_calls set_first c m @ inner_calls ps m' vs @ end_calls reset_first r m''"

text \<open>
  The calls that a body of the header answers: the setter, and each of the four
  virtual members with a body in the header that the derived class does not
  override.
\<close>

fun base_call :: "('e, 'f) overrides \<Rightarrow> 'f call \<Rightarrow> bool" where
  "base_call V (Call_SetUsedThisFrame b) = True"
| "base_call V (Call_PostPrerollAction m) = (PostPrerollAction_override V = None)"
| "base_call V (Call_EndFrame r m) = (EndFrame_override V = None)"
| "base_call V (Call_PushVisitedPlatformView i) = (PushVisitedPlatformView_override V = None)"
| "base_call V (Call_PushFilterToVisitedPlatformViews fl r) =
     (PushFilterToVisitedPlatformViews_override V = None)"
| "base_call V _ = False"

text \<open>The calls of \<^verbatim>\<open>SetUsedThisFrame\<close>.\<close>

fun sets_flag :: "'f call \<Rightarrow> bool" where
  "sets_flag (Call_SetUsedThisFrame b) = True"
| "sets_flag _ = False"

subsection \<open>Example values\<close>

text \<open>
  Concrete inputs at which the theorems below are instantiated.  The opaque payload
  types are instantiated by \<open>unit\<close>, the filter type by \<open>unit\<close> or \<open>nat\<close>.
\<close>

definition rect_0_0_100_100 :: DlRect where
  "rect_0_0_100_100 = \<lparr>rect_left = 0, rect_top = 0, rect_right = 100, rect_bottom = 100\<rparr>"

text \<open>
  Pointers to filter objects at the address \<open>a\<close>, with the filters \<open>5\<close> and \<open>6\<close>
  (the filter type is instantiated by \<open>nat\<close>).
\<close>

definition filter_5_at :: "nat \<Rightarrow> nat shared_ptr option" where
  "filter_5_at a = Some \<lparr>address = a, pointee = 5\<rparr>"

definition filter_6_at :: "nat \<Rightarrow> nat shared_ptr option" where
  "filter_6_at a = Some \<lparr>address = a, pointee = 6\<rparr>"

text \<open>A stack that holds the one Mutator \<open>m\<close>, in an object at the address \<open>a\<close>.\<close>

definition one_entry_at ::
  "nat \<Rightarrow> (unit, unit, unit, nat) Mutator \<Rightarrow> (unit, unit, unit, nat) MutatorsStack" where
  "one_entry_at a m = \<lparr>vector_m = [\<lparr>address = a, pointee = m\<rparr>]\<rparr>"

text \<open>
  A stack that holds a clip rectangle and an opacity of 128, in Mutator objects at the
  addresses \<open>a\<close> and \<open>b\<close>.
\<close>

definition two_entries_at :: "nat \<Rightarrow> nat \<Rightarrow> (unit, unit, unit, nat) MutatorsStack" where
  "two_entries_at a b =
     \<lparr>vector_m = [\<lparr>address = a, pointee = Mutator_rect rect_0_0_100_100\<rparr>,
                  \<lparr>address = b, pointee = Mutator_alpha 128\<rparr>]\<rparr>"



text \<open>Scenario B of the spec: a clip rectangle, then an opacity of 128, pushed on a new stack.\<close>

definition scenario_B_stack :: "(unit, unit, unit, unit) MutatorsStack" where
  "scenario_B_stack =
     push_call 2 (Opacity 128) (push_call 1 (ClipRect rect_0_0_100_100) MutatorsStack_ctor)"

text \<open>Scenario A of the spec: a clip rectangle (0, 0, 100, 100), then a translation by (10, 10).\<close>

definition scenario_A_stack :: "(unit, unit, unit, unit) MutatorsStack" where
  "scenario_A_stack =
     PushTransform 2 (MakeTranslation 10 10)
       (PushClipRect 1 rect_0_0_100_100 MutatorsStack_ctor)"

text \<open>Scenario A of the spec: view parameters of size (50, 50) under that translation.\<close>

definition scenario_A_params :: "(unit, unit, unit, unit) EmbeddedViewParams" where
  "scenario_A_params =
     EmbeddedViewParams_ctor TransformAndClipBounds (MakeTranslation 10 10)
       \<lparr>size_width = 50, size_height = 50\<rparr> scenario_A_stack"

text \<open>A sequence of calls that the base class implements itself.\<close>

definition base_calls_example :: "unit call list" where
  "base_calls_example =
     [Call_SetUsedThisFrame True, Call_PostPrerollAction 0, Call_PushVisitedPlatformView 7,
      Call_PushFilterToVisitedPlatformViews (Some \<lparr>address = 40, pointee = ()\<rparr>) rect_0_0_100_100,
      Call_EndFrame False 0]"

text \<open>
  One frame with one platform view and one Flutter view: as the lifecycle lists its
  calls, and with the caller's two calls of \<^verbatim>\<open>SetUsedThisFrame\<close> (true after
  \<^verbatim>\<open>BeginFrame\<close>, false before \<^verbatim>\<open>EndFrame\<close>).
\<close>

definition one_view_frame :: "unit call list" where
  "one_view_frame = frame_calls 0 0 [(7, 1)] 0 [(((800, 600), 2), (0, 1, 2, 3))] False 0"

definition one_view_driven_frame :: "unit call list" where
  "one_view_driven_frame =
     driven_frame_calls False True 0 0 [(7, 1)] 0 [(((800, 600), 2), (0, 1, 2, 3))] False 0"

text \<open>
  Scenario C of the spec: a slice that is recording, and one whose recording has
  ended, with the rectangles drawn; the two disjoint rectangles \<open>(0, 0)\<close> and
  \<open>(20, 20)\<close> of size \<open>10 \<times> 10\<close>, and the query at \<open>(5, 5)\<close> of size \<open>30 \<times> 30\<close>,
  each by its left, top, right and bottom.
\<close>

definition recording :: "DlRect list \<Rightarrow> DisplayListEmbedderViewSlice" where
  "recording ops = \<lparr>builder_m = Some ops, display_list_m = None\<rparr>"

definition recorded :: "DlRect list \<Rightarrow> DisplayListEmbedderViewSlice" where
  "recorded ops = \<lparr>builder_m = None, display_list_m = Some ops\<rparr>"

definition rect_0_0_10_10 :: DlRect where
  "rect_0_0_10_10 = \<lparr>rect_left = 0, rect_top = 0, rect_right = 10, rect_bottom = 10\<rparr>"

definition rect_20_20_30_30 :: DlRect where
  "rect_20_20_30_30 = \<lparr>rect_left = 20, rect_top = 20, rect_right = 30, rect_bottom = 30\<rparr>"

definition rect_5_5_35_35 :: DlRect where
  "rect_5_5_35_35 = \<lparr>rect_left = 5, rect_top = 5, rect_right = 35, rect_bottom = 35\<rparr>"

section \<open>Properties\<close>

subsection \<open>Mutators, case by case\<close>

lemmas MutatorType_defs =
  kClipRect_def kClipRRect_def kClipRSE_def kClipPath_def kTransform_def kOpacity_def
  kBackdropFilter_def

lemmas Mutator_ctor_defs =
  Mutator_rect_def Mutator_rrect_def Mutator_rse_def Mutator_path_def Mutator_matrix_def
  Mutator_alpha_def Mutator_filter_def Mutator_copy_def

lemmas Mutator_accessor_defs =
  GetType_def GetRect_def GetRRect_def GetRSE_def GetRSEApproximation_def GetPath_def
  GetMatrix_def GetFilterMutation_def GetAlpha_def GetAlphaFloat_def

lemma Mutator_cases:
  obtains (rect) r where "m = Mutator_rect r"
  | (rrect) r where "m = Mutator_rrect r"
  | (rse) r where "m = Mutator_rse r"
  | (path) p where "m = Mutator_path p"
  | (matrix) x where "m = Mutator_matrix x"
  | (alpha) a where "m = Mutator_alpha a"
  | (filter) f r where "m = Mutator_filter f r"
proof (cases m)
  case (fields d)
  show ?thesis
  proof (cases d)
    case (holds_ImageFilterMutation i)
    then have "m = Mutator_filter (filter_m i) (filter_rect_m i)"
      using fields by (simp add: Mutator_filter_def ImageFilterMutation_ctor_def)
    then show ?thesis by (rule filter)
  qed (use fields rect rrect rse path matrix alpha in \<open>simp_all add: Mutator_ctor_defs\<close>)
qed

lemma GetType_ctor:
  "GetType (Mutator_rect r) = kClipRect"
  "GetType (Mutator_rrect rr) = kClipRRect"
  "GetType (Mutator_rse rs) = kClipRSE"
  "GetType (Mutator_path p) = kClipPath"
  "GetType (Mutator_matrix x) = kTransform"
  "GetType (Mutator_alpha a) = kOpacity"
  "GetType (Mutator_filter f fr) = kBackdropFilter"
  by (simp_all add: GetType_def Mutator_ctor_defs MutatorType_defs)

lemma matching_accessor:
  "GetRect (Mutator_rect r) = Inr r"
  "GetRRect (Mutator_rrect rr) = Inr rr"
  "GetRSE (Mutator_rse rs) = Inr rs"
  "GetRSEApproximation approx (Mutator_rse rs) = Inr (approx rs)"
  "GetPath (Mutator_path p) = Inr p"
  "GetMatrix (Mutator_matrix x) = Inr x"
  "GetAlpha (Mutator_alpha a) = Inr a"
  "GetAlphaFloat opac (Mutator_alpha a) = Inr (opac a)"
  "GetFilterMutation (Mutator_filter f fr) = Inr (ImageFilterMutation_ctor f fr)"
  by (simp_all add: Mutator_accessor_defs Mutator_ctor_defs)

lemma other_accessor:
  "GetType m \<noteq> kClipRect \<Longrightarrow> GetRect m = Inl TypeMismatch"
  "GetType m \<noteq> kClipRRect \<Longrightarrow> GetRRect m = Inl TypeMismatch"
  "GetType m \<noteq> kClipRSE \<Longrightarrow> GetRSE m = Inl TypeMismatch"
  "GetType m \<noteq> kClipRSE \<Longrightarrow> GetRSEApproximation approx m = Inl TypeMismatch"
  "GetType m \<noteq> kClipPath \<Longrightarrow> GetPath m = Inl TypeMismatch"
  "GetType m \<noteq> kTransform \<Longrightarrow> GetMatrix m = Inl TypeMismatch"
  "GetType m \<noteq> kOpacity \<Longrightarrow> GetAlpha m = Inl TypeMismatch"
  "GetType m \<noteq> kOpacity \<Longrightarrow> GetAlphaFloat opac m = Inl TypeMismatch"
  "GetType m \<noteq> kBackdropFilter \<Longrightarrow> GetFilterMutation m = Inl TypeMismatch"
  by (cases m rule: Mutator_cases;
      simp add: Mutator_accessor_defs Mutator_ctor_defs MutatorType_defs)+

subsection \<open>The tag of a Mutator and its accessors\<close>

text \<open>
  C3. For every Mutator, \<^verbatim>\<open>GetType()\<close> is the tag of the constructor that built it
  (rect: kClipRect, rounded rect: kClipRRect, rounded superellipse: kClipRSE, path:
  kClipPath, matrix: kTransform, alpha: kOpacity, filter and rect: kBackdropFilter;
  a copy has the tag of the original), the accessor of that tag returns the payload
  the Mutator was built from, and every accessor of another tag fails with
  \<open>TypeMismatch\<close>.  \<^verbatim>\<open>GetRSEApproximation\<close> and \<^verbatim>\<open>GetAlphaFloat\<close> fail with
  \<^verbatim>\<open>GetRSE\<close> and \<^verbatim>\<open>GetAlpha\<close>, whatever the two conversions they call compute.
\<close>

theorem Mutator_type_and_accessors:
  fixes m :: "('rr, 'rse, 'path, 'f) Mutator"
    and approx :: "'rse \<Rightarrow> 'rr" and opac :: "8 word \<Rightarrow> real"
  shows
  "(GetType (Mutator_rect r :: ('rr, 'rse, 'path, 'f) Mutator) = kClipRect \<and>
    GetRect (Mutator_rect r :: ('rr, 'rse, 'path, 'f) Mutator) = Inr r) \<and>
   (GetType (Mutator_rrect rr :: ('rr, 'rse, 'path, 'f) Mutator) = kClipRRect \<and>
    GetRRect (Mutator_rrect rr :: ('rr, 'rse, 'path, 'f) Mutator) = Inr rr) \<and>
   (GetType (Mutator_rse rs :: ('rr, 'rse, 'path, 'f) Mutator) = kClipRSE \<and>
    GetRSE (Mutator_rse rs :: ('rr, 'rse, 'path, 'f) Mutator) = Inr rs \<and>
    GetRSEApproximation approx (Mutator_rse rs :: ('rr, 'rse, 'path, 'f) Mutator) =
      Inr (approx rs)) \<and>
   (GetType (Mutator_path p :: ('rr, 'rse, 'path, 'f) Mutator) = kClipPath \<and>
    GetPath (Mutator_path p :: ('rr, 'rse, 'path, 'f) Mutator) = Inr p) \<and>
   (GetType (Mutator_matrix x :: ('rr, 'rse, 'path, 'f) Mutator) = kTransform \<and>
    GetMatrix (Mutator_matrix x :: ('rr, 'rse, 'path, 'f) Mutator) = Inr x) \<and>
   (GetType (Mutator_alpha a :: ('rr, 'rse, 'path, 'f) Mutator) = kOpacity \<and>
    GetAlpha (Mutator_alpha a :: ('rr, 'rse, 'path, 'f) Mutator) = Inr a \<and>
    GetAlphaFloat opac (Mutator_alpha a :: ('rr, 'rse, 'path, 'f) Mutator) = Inr (opac a)) \<and>
   (GetType (Mutator_filter f fr :: ('rr, 'rse, 'path, 'f) Mutator) = kBackdropFilter \<and>
    GetFilterMutation (Mutator_filter f fr :: ('rr, 'rse, 'path, 'f) Mutator) =
      Inr \<lparr>filter_m = f, filter_rect_m = fr\<rparr>) \<and>
   GetType (Mutator_copy m) = GetType m \<and>
   (GetType m \<noteq> kClipRect \<longrightarrow> GetRect m = Inl TypeMismatch) \<and>
   (GetType m \<noteq> kClipRRect \<longrightarrow> GetRRect m = Inl TypeMismatch) \<and>
   (GetType m \<noteq> kClipRSE \<longrightarrow>
      GetRSE m = Inl TypeMismatch \<and> GetRSEApproximation approx m = Inl TypeMismatch) \<and>
   (GetType m \<noteq> kClipPath \<longrightarrow> GetPath m = Inl TypeMismatch) \<and>
   (GetType m \<noteq> kTransform \<longrightarrow> GetMatrix m = Inl TypeMismatch) \<and>
   (GetType m \<noteq> kOpacity \<longrightarrow>
      GetAlpha m = Inl TypeMismatch \<and> GetAlphaFloat opac m = Inl TypeMismatch) \<and>
   (GetType m \<noteq> kBackdropFilter \<longrightarrow> GetFilterMutation m = Inl TypeMismatch)"
proof -
  have copy: "GetType (Mutator_copy m) = GetType m"
    by (simp add: GetType_def Mutator_copy_def)
  show ?thesis
    using copy
    by (simp add: GetType_ctor matching_accessor other_accessor
          ImageFilterMutation_ctor_def)
qed

theorem Mutator_type_and_accessors_witness:
  "GetType (Mutator_alpha 128 :: (unit, unit, unit, unit) Mutator) = kOpacity \<and>
   GetType (Mutator_alpha 128 :: (unit, unit, unit, unit) Mutator) \<noteq> kClipRect \<and>
   GetAlpha (Mutator_alpha 128 :: (unit, unit, unit, unit) Mutator) = Inr 128 \<and>
   GetRect (Mutator_alpha 128 :: (unit, unit, unit, unit) Mutator) = Inl TypeMismatch \<and>
   GetRRect (Mutator_alpha 128 :: (unit, unit, unit, unit) Mutator) = Inl TypeMismatch \<and>
   GetRSE (Mutator_alpha 128 :: (unit, unit, unit, unit) Mutator) = Inl TypeMismatch \<and>
   GetPath (Mutator_alpha 128 :: (unit, unit, unit, unit) Mutator) = Inl TypeMismatch \<and>
   GetMatrix (Mutator_alpha 128 :: (unit, unit, unit, unit) Mutator) = Inl TypeMismatch \<and>
   GetFilterMutation (Mutator_alpha 128 :: (unit, unit, unit, unit) Mutator) =
     Inl TypeMismatch"
  using Mutator_type_and_accessors
    [where m = "Mutator_alpha 128 :: (unit, unit, unit, unit) Mutator" and a = 128]
  by (simp add: MutatorType_defs)

text \<open>
  C9. For every Mutator, \<^verbatim>\<open>IsClipType()\<close> returns true exactly when \<^verbatim>\<open>GetType()\<close>
  is kClipRect, kClipRRect, kClipRSE or kClipPath, and returns false exactly when it
  is kTransform, kOpacity or kBackdropFilter; it always returns one of the two, so
  the switch never falls through.
\<close>

theorem IsClipType_iff:
  "(IsClipType m = Inr True \<longleftrightarrow>
      GetType m = kClipRect \<or> GetType m = kClipRRect \<or> GetType m = kClipRSE \<or>
      GetType m = kClipPath) \<and>
   (IsClipType m = Inr False \<longleftrightarrow>
      GetType m = kTransform \<or> GetType m = kOpacity \<or> GetType m = kBackdropFilter) \<and>
   (IsClipType m = Inr True \<or> IsClipType m = Inr False)"
  by (cases m rule: Mutator_cases)
     (simp_all add: IsClipType_def GetType_ctor, simp_all add: MutatorType_defs)

theorem IsClipType_iff_witness:
  "IsClipType (Mutator_rect \<lparr>rect_left = 0, rect_top = 0, rect_right = 100, rect_bottom = 100\<rparr>
      :: (unit, unit, unit, unit) Mutator) = Inr True \<and>
   IsClipType (Mutator_alpha 128 :: (unit, unit, unit, unit) Mutator) = Inr False"
  using IsClipType_iff
    [of "Mutator_rect \<lparr>rect_left = 0, rect_top = 0, rect_right = 100, rect_bottom = 100\<rparr>
      :: (unit, unit, unit, unit) Mutator"]
    IsClipType_iff [of "Mutator_alpha 128 :: (unit, unit, unit, unit) Mutator"]
  by (simp add: GetType_ctor)

declare MutatorsStack_eq_loop.simps [simp del]
declare MutatorsStack_eq_vector_loop.simps [simp del]

subsection \<open>Value equality of stacks\<close>

lemma all_from_split:
  fixes i n :: nat
  assumes "i < n"
  shows "(\<forall>j. i \<le> j \<and> j < n \<longrightarrow> P j) \<longleftrightarrow> P i \<and> (\<forall>j. i + 1 \<le> j \<and> j < n \<longrightarrow> P j)"
proof
  assume all: "\<forall>j. i \<le> j \<and> j < n \<longrightarrow> P j"
  then have "P i" using assms by simp
  moreover have "\<forall>j. i + 1 \<le> j \<and> j < n \<longrightarrow> P j" using all by simp
  ultimately show "P i \<and> (\<forall>j. i + 1 \<le> j \<and> j < n \<longrightarrow> P j)" ..
next
  assume r: "P i \<and> (\<forall>j. i + 1 \<le> j \<and> j < n \<longrightarrow> P j)"
  show "\<forall>j. i \<le> j \<and> j < n \<longrightarrow> P j"
  proof (intro allI impI)
    fix j assume j: "i \<le> j \<and> j < n"
    show "P j"
    proof (cases "j = i")
      case True then show ?thesis using r by simp
    next
      case False
      then have "i + 1 \<le> j" using j by simp
      then show ?thesis using r j by simp
    qed
  qed
qed

lemma at_address_0_eq:
  "at_address_0 (Some p) = at_address_0 (Some q) \<longleftrightarrow> pointee p = pointee q"
  by (cases p, cases q) (simp add: at_address_0_def)

lemma variant_eq_value:
  assumes "\<not> variant_null_filter x" and "\<not> variant_null_filter y"
  shows "variant_eq x y = Inr (variant_value x = variant_value y)"
proof (cases x)
  case (holds_ImageFilterMutation a)
  then obtain p where p: "filter_m a = Some p" using assms(1) by auto
  show ?thesis
  proof (cases y)
    case y: (holds_ImageFilterMutation b)
    then obtain q where q: "filter_m b = Some q" using assms(2) by auto
    have "a\<lparr>filter_m := at_address_0 (filter_m a)\<rparr> = b\<lparr>filter_m := at_address_0 (filter_m b)\<rparr>
        \<longleftrightarrow> pointee p = pointee q \<and> filter_rect_m a = filter_rect_m b"
      using p q by (cases a, cases b) (simp add: at_address_0_eq)
    then show ?thesis
      using holds_ImageFilterMutation y p q by (simp add: ImageFilterMutation_eq_def)
  qed (use holds_ImageFilterMutation in simp_all)
qed (cases y; simp)+

lemma Mutator_eq_value:
  assumes "\<not> has_null_filter a" and "\<not> has_null_filter b"
  shows "Mutator_eq a b = Inr (Mutator_value a = Mutator_value b)"
proof -
  have "variant_eq (data_m a) (data_m b) =
      Inr (variant_value (data_m a) = variant_value (data_m b))"
    using assms by (intro variant_eq_value) (simp_all add: has_null_filter_def)
  moreover have "Mutator_value a = Mutator_value b \<longleftrightarrow>
      variant_value (data_m a) = variant_value (data_m b)"
    by (cases a, cases b) (simp add: Mutator_value_def)
  ultimately show ?thesis by (simp add: Mutator_eq_def)
qed

lemma Mutator_eq_null_self:
  assumes "has_null_filter a"
  shows "Mutator_eq a a = Inl NullDereference"
  using assms
  by (cases "data_m a")
     (simp_all add: Mutator_eq_def has_null_filter_def ImageFilterMutation_eq_def)

lemma Mutator_ne_value:
  assumes "\<not> has_null_filter a" and "\<not> has_null_filter b"
  shows "Mutator_ne a b = Inr (Mutator_value a \<noteq> Mutator_value b)"
  using Mutator_eq_value [OF assms] by (simp add: Mutator_ne_def negation_def)

lemma MutatorsStack_eq_loop_value:
  assumes "\<forall>j < length v. \<not> has_null_filter (pointee (v ! j)) \<and>
             \<not> has_null_filter (pointee (w ! j))"
  shows "MutatorsStack_eq_loop v w i =
     Inr (\<forall>j. i \<le> j \<and> j < length v \<longrightarrow>
            Mutator_value (pointee (v ! j)) = Mutator_value (pointee (w ! j)))"
  using assms
proof (induction v w i rule: MutatorsStack_eq_loop.induct)
  case (1 v w i)
  show ?case
  proof (cases "i < length v")
    case False
    then show ?thesis by (subst MutatorsStack_eq_loop.simps) auto
  next
    case True
    note split = all_from_split [OF True,
        of "\<lambda>j. Mutator_value (pointee (v ! j)) = Mutator_value (pointee (w ! j))"]
    have ne: "Mutator_ne (pointee (v ! i)) (pointee (w ! i)) =
        Inr (Mutator_value (pointee (v ! i)) \<noteq> Mutator_value (pointee (w ! i)))"
      using "1.prems" True by (intro Mutator_ne_value) simp_all
    show ?thesis
    proof (cases "Mutator_value (pointee (v ! i)) = Mutator_value (pointee (w ! i))")
      case differ: False
      then have "MutatorsStack_eq_loop v w i = Inr False"
        using True ne by (subst MutatorsStack_eq_loop.simps) simp
      then show ?thesis using split differ by simp
    next
      case same: True
      have "MutatorsStack_eq_loop v w i = MutatorsStack_eq_loop v w (i + 1)"
        using True ne same by (subst MutatorsStack_eq_loop.simps) simp
      also have "\<dots> = Inr (\<forall>j. i + 1 \<le> j \<and> j < length v \<longrightarrow>
            Mutator_value (pointee (v ! j)) = Mutator_value (pointee (w ! j)))"
        using "1.IH" [OF True ne] same "1.prems" by simp
      finally show ?thesis using split same by simp
    qed
  qed
qed

lemma MutatorsStack_eq_vector_loop_value:
  assumes "\<forall>j < length v. \<not> has_null_filter (pointee (v ! j)) \<and> \<not> has_null_filter (w ! j)"
  shows "MutatorsStack_eq_vector_loop v w i =
     Inr (\<forall>j. i \<le> j \<and> j < length v \<longrightarrow> Mutator_value (pointee (v ! j)) = Mutator_value (w ! j))"
  using assms
proof (induction v w i rule: MutatorsStack_eq_vector_loop.induct)
  case (1 v w i)
  show ?case
  proof (cases "i < length v")
    case False
    then show ?thesis by (subst MutatorsStack_eq_vector_loop.simps) auto
  next
    case True
    note split = all_from_split [OF True,
        of "\<lambda>j. Mutator_value (pointee (v ! j)) = Mutator_value (w ! j)"]
    have ne: "Mutator_ne (pointee (v ! i)) (w ! i) =
        Inr (Mutator_value (pointee (v ! i)) \<noteq> Mutator_value (w ! i))"
      using "1.prems" True by (intro Mutator_ne_value) simp_all
    show ?thesis
    proof (cases "Mutator_value (pointee (v ! i)) = Mutator_value (w ! i)")
      case differ: False
      then have "MutatorsStack_eq_vector_loop v w i = Inr False"
        using True ne by (subst MutatorsStack_eq_vector_loop.simps) simp
      then show ?thesis using split differ by simp
    next
      case same: True
      have "MutatorsStack_eq_vector_loop v w i = MutatorsStack_eq_vector_loop v w (i + 1)"
        using True ne same by (subst MutatorsStack_eq_vector_loop.simps) simp
      also have "\<dots> = Inr (\<forall>j. i + 1 \<le> j \<and> j < length v \<longrightarrow>
            Mutator_value (pointee (v ! j)) = Mutator_value (w ! j))"
        using "1.IH" [OF True ne] same "1.prems" by simp
      finally show ?thesis using split same by simp
    qed
  qed
qed

lemma MutatorsStack_eq_values:
  assumes "no_null_filter s" and "no_null_filter t"
  shows "MutatorsStack_eq s t = Inr (stack_values s = stack_values t)"
proof (cases "length (vector_m s) = length (vector_m t)")
  case False
  then have "stack_values s \<noteq> stack_values t"
    by (metis length_map stack_values_def)
  then show ?thesis using False by (simp add: MutatorsStack_eq_def)
next
  case True
  have nn: "\<forall>j < length (vector_m s). \<not> has_null_filter (pointee (vector_m s ! j)) \<and>
      \<not> has_null_filter (pointee (vector_m t ! j))"
    using assms True by (simp add: no_null_filter_def list_all_length)
  have "stack_values s = stack_values t \<longleftrightarrow>
      (\<forall>j. 0 \<le> j \<and> j < length (vector_m s) \<longrightarrow>
         Mutator_value (pointee (vector_m s ! j)) = Mutator_value (pointee (vector_m t ! j)))"
    using True by (simp add: stack_values_def list_eq_iff_nth_eq)
  then show ?thesis
    using True MutatorsStack_eq_loop_value [OF nn, of 0] by (simp add: MutatorsStack_eq_def)
qed

lemma MutatorsStack_eq_vector_values:
  assumes "no_null_filter s" and "list_all (\<lambda>m. \<not> has_null_filter m) ms"
  shows "MutatorsStack_eq_vector s ms = Inr (stack_values s = map Mutator_value ms)"
proof (cases "length (vector_m s) = length ms")
  case False
  then have "stack_values s \<noteq> map Mutator_value ms"
    by (metis length_map stack_values_def)
  then show ?thesis using False by (simp add: MutatorsStack_eq_vector_def)
next
  case True
  have nn: "\<forall>j < length (vector_m s). \<not> has_null_filter (pointee (vector_m s ! j)) \<and>
      \<not> has_null_filter (ms ! j)"
    using assms True by (simp add: no_null_filter_def list_all_length)
  have "stack_values s = map Mutator_value ms \<longleftrightarrow>
      (\<forall>j. 0 \<le> j \<and> j < length (vector_m s) \<longrightarrow>
         Mutator_value (pointee (vector_m s ! j)) = Mutator_value (ms ! j))"
    using True by (simp add: stack_values_def list_eq_iff_nth_eq)
  then show ?thesis
    using True MutatorsStack_eq_vector_loop_value [OF nn, of 0]
    by (simp add: MutatorsStack_eq_vector_def)
qed

lemma MutatorsStack_eq_same_pointees:
  assumes "no_null_filter s" and "map pointee (vector_m s) = map pointee (vector_m t)"
  shows "MutatorsStack_eq s t = Inr True"
proof -
  have "list_all (\<lambda>m. \<not> has_null_filter m) (map pointee (vector_m s))"
    using assms(1) by (simp add: no_null_filter_def list_all_iff)
  then have "list_all (\<lambda>m. \<not> has_null_filter m) (map pointee (vector_m t))"
    using assms(2) by simp
  then have t: "no_null_filter t" by (simp add: no_null_filter_def list_all_iff)
  have "stack_values s = map Mutator_value (map pointee (vector_m s))"
    by (simp add: stack_values_def)
  also have "\<dots> = map Mutator_value (map pointee (vector_m t))"
    using assms(2) by simp
  also have "\<dots> = stack_values t" by (simp add: stack_values_def)
  finally show ?thesis using MutatorsStack_eq_values [OF assms(1) t] by simp
qed

lemma MutatorsStack_eq_vector_loop_self:
  "MutatorsStack_eq_vector_loop v (map pointee v) i =
     (if \<forall>j. i \<le> j \<and> j < length v \<longrightarrow> \<not> has_null_filter (pointee (v ! j)) then Inr True
      else Inl NullDereference)"
proof (induction v "map pointee v" i rule: MutatorsStack_eq_vector_loop.induct)
  case (1 v i)
  show ?case
  proof (cases "i < length v")
    case False
    then show ?thesis by (subst MutatorsStack_eq_vector_loop.simps) auto
  next
    case True
    note split = all_from_split [OF True, of "\<lambda>j. \<not> has_null_filter (pointee (v ! j))"]
    show ?thesis
    proof (cases "has_null_filter (pointee (v ! i))")
      case null: True
      then have "Mutator_ne (pointee (v ! i)) (map pointee v ! i) = Inl NullDereference"
        using True by (simp add: Mutator_ne_def negation_def Mutator_eq_null_self)
      then have "MutatorsStack_eq_vector_loop v (map pointee v) i = Inl NullDereference"
        using True by (subst MutatorsStack_eq_vector_loop.simps) simp
      then show ?thesis using split null by simp
    next
      case sound: False
      then have ne: "Mutator_ne (pointee (v ! i)) (map pointee v ! i) = Inr False"
        using True by (simp add: Mutator_ne_value)
      have "MutatorsStack_eq_vector_loop v (map pointee v) i =
          MutatorsStack_eq_vector_loop v (map pointee v) (i + 1)"
        using True ne by (subst MutatorsStack_eq_vector_loop.simps) simp
      also have "\<dots> =
          (if \<forall>j. i + 1 \<le> j \<and> j < length v \<longrightarrow> \<not> has_null_filter (pointee (v ! j))
           then Inr True else Inl NullDereference)"
        using "1.hyps" [OF True ne] by simp
      finally show ?thesis using split sound by simp
    qed
  qed
qed

lemma MutatorsStack_eq_vector_self:
  "MutatorsStack_eq_vector s (map pointee (vector_m s)) =
     (if no_null_filter s then Inr True else Inl NullDereference)"
  by (simp add: MutatorsStack_eq_vector_def MutatorsStack_eq_vector_loop_self
        no_null_filter_def list_all_length)

lemma Mutator_value_not_filter: "GetType a \<noteq> kBackdropFilter \<Longrightarrow> Mutator_value a = a"
  by (cases a rule: Mutator_cases)
     (simp_all add: Mutator_value_def Mutator_ctor_defs GetType_def MutatorType_defs
        ImageFilterMutation_ctor_def)

lemma Mutator_value_filter:
  "Mutator_value (Mutator_filter (Some p) r) = Mutator_filter (Some (p\<lparr>address := 0\<rparr>)) r"
  by (simp add: Mutator_value_def Mutator_filter_def ImageFilterMutation_ctor_def
        at_address_0_def)

text \<open>
  C7, as amended.  Equality of a MutatorsStack is element-wise and by value, not by
  object identity, on stacks none of whose Mutators has a null filter.  Two such
  Mutators are equal by \<^verbatim>\<open>Mutator::operator==\<close> exactly when they have the same
  value, which is the Mutator itself unless it is a backdrop filter, and then the
  Mutator with the address of its filter object set aside.  Two such stacks are
  equal by \<^verbatim>\<open>operator==\<close> exactly when their Mutators have the same values in the
  same order, and likewise a stack and a plain sequence of Mutators: the addresses
  of the Mutator objects and of the filter objects play no part, and stacks with
  the same Mutators in distinct objects are equal.  A stack compared with the plain
  sequence of its own Mutators is equal to it when it has no null filter; when it
  has one, the comparison dereferences the null pointer.  Stacks (or a stack and a
  sequence) of different lengths are never equal.  Payloads are compared by HOL
  equality, which is reflexive; a \<^verbatim>\<open>float\<close> NaN inside a payload, which is not
  equal to itself, is outside the embedding.
\<close>

theorem MutatorsStack_eq_by_value:
  "(\<not> has_null_filter a \<and> \<not> has_null_filter b \<longrightarrow>
      Mutator_eq a b = Inr (Mutator_value a = Mutator_value b)) \<and>
   (GetType a \<noteq> kBackdropFilter \<longrightarrow> Mutator_value a = a) \<and>
   Mutator_value (Mutator_filter (Some p) r :: ('rr, 'rse, 'path, 'f) Mutator) =
     Mutator_filter (Some (p\<lparr>address := 0\<rparr>)) r \<and>
   (no_null_filter s \<and> no_null_filter t \<longrightarrow>
      MutatorsStack_eq s t = Inr (stack_values s = stack_values t)) \<and>
   (no_null_filter s \<and> list_all (\<lambda>m. \<not> has_null_filter m) ms \<longrightarrow>
      MutatorsStack_eq_vector s ms = Inr (stack_values s = map Mutator_value ms)) \<and>
   MutatorsStack_eq_vector s (map pointee (vector_m s)) =
     (if no_null_filter s then Inr True else Inl NullDereference) \<and>
   (no_null_filter s \<and> map pointee (vector_m s) = map pointee (vector_m t) \<longrightarrow>
      MutatorsStack_eq s t = Inr True) \<and>
   (stack_count s \<noteq> stack_count t \<longrightarrow> MutatorsStack_eq s t = Inr False) \<and>
   (stack_count s \<noteq> length ms \<longrightarrow> MutatorsStack_eq_vector s ms = Inr False)"
proof -
  have 1: "\<not> has_null_filter a \<and> \<not> has_null_filter b \<longrightarrow>
      Mutator_eq a b = Inr (Mutator_value a = Mutator_value b)"
    by (simp add: Mutator_eq_value)
  have 2: "GetType a \<noteq> kBackdropFilter \<longrightarrow> Mutator_value a = a"
    by (simp add: Mutator_value_not_filter)
  have 3: "Mutator_value (Mutator_filter (Some p) r :: ('rr, 'rse, 'path, 'f) Mutator) =
      Mutator_filter (Some (p\<lparr>address := 0\<rparr>)) r"
    by (rule Mutator_value_filter)
  have 4: "no_null_filter s \<and> no_null_filter t \<longrightarrow>
      MutatorsStack_eq s t = Inr (stack_values s = stack_values t)"
    by (simp add: MutatorsStack_eq_values)
  have 5: "no_null_filter s \<and> list_all (\<lambda>m. \<not> has_null_filter m) ms \<longrightarrow>
      MutatorsStack_eq_vector s ms = Inr (stack_values s = map Mutator_value ms)"
    by (simp add: MutatorsStack_eq_vector_values)
  have 6: "MutatorsStack_eq_vector s (map pointee (vector_m s)) =
      (if no_null_filter s then Inr True else Inl NullDereference)"
    by (rule MutatorsStack_eq_vector_self)
  have 7: "no_null_filter s \<and> map pointee (vector_m s) = map pointee (vector_m t) \<longrightarrow>
      MutatorsStack_eq s t = Inr True"
    by (simp add: MutatorsStack_eq_same_pointees)
  have 8: "stack_count s \<noteq> stack_count t \<longrightarrow> MutatorsStack_eq s t = Inr False"
    by (simp add: MutatorsStack_eq_def stack_count_def)
  have 9: "stack_count s \<noteq> length ms \<longrightarrow> MutatorsStack_eq_vector s ms = Inr False"
    by (simp add: MutatorsStack_eq_vector_def stack_count_def)
  show ?thesis using 1 2 3 4 5 6 7 8 9 by (intro conjI)
qed

lemmas stack_example_defs =
  one_entry_at_def two_entries_at_def filter_5_at_def filter_6_at_def rect_0_0_100_100_def
  no_null_filter_def has_null_filter_def stack_values_def Mutator_value_def at_address_0_def
  Mutator_rect_def Mutator_alpha_def Mutator_filter_def ImageFilterMutation_ctor_def
  stack_count_def

theorem MutatorsStack_eq_by_value_witness:
  "map address (vector_m (two_entries_at 1 2)) \<noteq> map address (vector_m (two_entries_at 7 9)) \<and>
   no_null_filter (two_entries_at 1 2) \<and> no_null_filter (two_entries_at 7 9) \<and>
   MutatorsStack_eq (two_entries_at 1 2) (two_entries_at 7 9) = Inr True \<and>
   MutatorsStack_eq_vector (two_entries_at 1 2)
     [Mutator_rect rect_0_0_100_100, Mutator_alpha 128] = Inr True \<and>
   MutatorsStack_eq_vector (two_entries_at 1 2) [Mutator_alpha 128] = Inr False \<and>
   MutatorsStack_eq (one_entry_at 1 (Mutator_rect rect_0_0_100_100))
     (one_entry_at 1 (Mutator_alpha 7)) = Inr False \<and>
   MutatorsStack_eq (one_entry_at 1 (Mutator_alpha 8)) (one_entry_at 1 (Mutator_alpha 7)) =
     Inr False \<and>
   MutatorsStack_eq (one_entry_at 1 (Mutator_filter (filter_5_at 40) rect_0_0_100_100))
     (one_entry_at 2 (Mutator_filter (filter_5_at 41) rect_0_0_100_100)) = Inr True \<and>
   MutatorsStack_eq (one_entry_at 1 (Mutator_filter (filter_5_at 40) rect_0_0_100_100))
     (one_entry_at 1 (Mutator_filter (filter_6_at 40) rect_0_0_100_100)) = Inr False"
proof -
  have eq: "MutatorsStack_eq s t = Inr (stack_values s = stack_values t)"
    if "no_null_filter s" and "no_null_filter t"
    for s t :: "(unit, unit, unit, nat) MutatorsStack"
    using MutatorsStack_eq_by_value [where s = s and t = t] that by blast
  have vec: "MutatorsStack_eq_vector s ms = Inr (stack_values s = map Mutator_value ms)"
    if "no_null_filter s" and "list_all (\<lambda>m. \<not> has_null_filter m) ms"
    for s :: "(unit, unit, unit, nat) MutatorsStack" and ms
    using MutatorsStack_eq_by_value [where s = s and ms = ms] that by blast
  have len: "MutatorsStack_eq_vector s ms = Inr False"
    if "stack_count s \<noteq> length ms"
    for s :: "(unit, unit, unit, nat) MutatorsStack" and ms
    using MutatorsStack_eq_by_value [where s = s and ms = ms] that by blast
  have a: "map address (vector_m (two_entries_at 1 2)) \<noteq>
      map address (vector_m (two_entries_at 7 9))"
    by (simp add: two_entries_at_def)
  have n1: "no_null_filter (two_entries_at 1 2)" and n2: "no_null_filter (two_entries_at 7 9)"
    by (simp_all add: stack_example_defs)
  have b: "MutatorsStack_eq (two_entries_at 1 2) (two_entries_at 7 9) = Inr True"
    by (subst eq) (simp_all add: stack_example_defs)
  have c: "MutatorsStack_eq_vector (two_entries_at 1 2)
      [Mutator_rect rect_0_0_100_100, Mutator_alpha 128] = Inr True"
    by (subst vec) (simp_all add: stack_example_defs)
  have d: "MutatorsStack_eq_vector (two_entries_at 1 2) [Mutator_alpha 128] = Inr False"
    by (rule len) (simp add: two_entries_at_def stack_count_def)
  have e: "MutatorsStack_eq (one_entry_at 1 (Mutator_rect rect_0_0_100_100))
      (one_entry_at 1 (Mutator_alpha 7)) = Inr False"
    by (subst eq) (simp_all add: stack_example_defs)
  have f: "MutatorsStack_eq (one_entry_at 1 (Mutator_alpha 8))
      (one_entry_at 1 (Mutator_alpha 7)) = Inr False"
    by (subst eq) (simp_all add: stack_example_defs)
  have g: "MutatorsStack_eq (one_entry_at 1 (Mutator_filter (filter_5_at 40) rect_0_0_100_100))
      (one_entry_at 2 (Mutator_filter (filter_5_at 41) rect_0_0_100_100)) = Inr True"
    by (subst eq) (simp_all add: stack_example_defs)
  have h: "MutatorsStack_eq (one_entry_at 1 (Mutator_filter (filter_5_at 40) rect_0_0_100_100))
      (one_entry_at 1 (Mutator_filter (filter_6_at 40) rect_0_0_100_100)) = Inr False"
    by (subst eq) (simp_all add: stack_example_defs)
  show ?thesis using a n1 n2 b c d e f g h by (intro conjI)
qed

text \<open>
  C7 as stated fails: the stack that \<^verbatim>\<open>PushBackdropFilter\<close> builds from a null
  filter pointer is not equal to the plain sequence of its own Mutator, nor to a
  second stack built by the same push; both comparisons dereference the null
  pointer.
\<close>

theorem MutatorsStack_eq_null_filter:
  "PushBackdropFilter 1 None rect_0_0_100_100 MutatorsStack_ctor =
     one_entry_at 1 (Mutator_filter None rect_0_0_100_100) \<and>
   map pointee (vector_m (one_entry_at 1 (Mutator_filter None rect_0_0_100_100))) =
     [Mutator_filter None rect_0_0_100_100] \<and>
   MutatorsStack_eq_vector (one_entry_at 1 (Mutator_filter None rect_0_0_100_100))
     [Mutator_filter None rect_0_0_100_100] = Inl NullDereference \<and>
   MutatorsStack_eq (one_entry_at 1 (Mutator_filter None rect_0_0_100_100))
     (one_entry_at 2 (Mutator_filter None rect_0_0_100_100)) = Inl NullDereference"
  by (simp add: PushBackdropFilter_def push_back_def make_shared_def MutatorsStack_ctor_def
        one_entry_at_def MutatorsStack_eq_vector_def MutatorsStack_eq_def
        MutatorsStack_eq_vector_loop.simps MutatorsStack_eq_loop.simps
        Mutator_ne_def negation_def Mutator_eq_def Mutator_filter_def
        ImageFilterMutation_ctor_def ImageFilterMutation_eq_def)

subsection \<open>Pushing and popping\<close>

lemma vector_push_call:
  "vector_m (push_call a p s) = vector_m s @ [make_shared a (pushed_Mutator p)]"
  by (cases p)
     (simp_all add: push_back_def PushClipRect_def PushClipRRect_def PushClipRSE_def
        PushClipPath_def PushTransform_def PushOpacity_def PushBackdropFilter_def)


lemma stack_eq_vector: "s = t \<longleftrightarrow> vector_m s = vector_m (t :: ('rr, 'rse, 'path, 'f) MutatorsStack)"
  by (cases s, cases t) simp


lemma Pop_push_call: "Pop (push_call a p s) = Inr s"
  by (simp add: Pop_def vector_push_call stack_eq_vector)







subsection \<open>Pop\<close>

text \<open>
  C8. \<^verbatim>\<open>Pop()\<close> removes exactly the most recently pushed entry: after a push it
  gives back the stack as it was, and on any non-empty stack it drops the last
  entry and nothing else, so the count falls by one.  On an empty stack, a new one
  included, it fails with \<open>EmptyStack\<close>.
\<close>

theorem Pop_removes_last_pushed:
  "Pop (push_call a p s) = Inr s \<and>
   (MutatorsStack_is_empty s \<longrightarrow> Pop s = Inl EmptyStack) \<and>
   (\<not> MutatorsStack_is_empty s \<longrightarrow>
      (\<exists>s'. Pop s = Inr s' \<and> stack_count s' + 1 = stack_count s \<and>
            vector_m s = vector_m s' @ [last (vector_m s)])) \<and>
   Pop (MutatorsStack_ctor :: ('rr, 'rse, 'path, 'f) MutatorsStack) = Inl EmptyStack"
proof -
  have nonempty: "\<exists>s'. Pop s = Inr s' \<and> stack_count s' + 1 = stack_count s \<and>
      vector_m s = vector_m s' @ [last (vector_m s)]" if "\<not> MutatorsStack_is_empty s"
  proof -
    have ne: "vector_m s \<noteq> []" using that by (simp add: MutatorsStack_is_empty_def)
    then have "Pop s = Inr (s\<lparr>vector_m := butlast (vector_m s)\<rparr>)"
      by (simp add: Pop_def)
    moreover have "stack_count (s\<lparr>vector_m := butlast (vector_m s)\<rparr>) + 1 = stack_count s"
      using ne by (simp add: stack_count_def)
    moreover have "vector_m s = vector_m (s\<lparr>vector_m := butlast (vector_m s)\<rparr>) @
        [last (vector_m s)]"
      using ne by simp
    ultimately show ?thesis by blast
  qed
  have empty: "Pop s = Inl EmptyStack" if "MutatorsStack_is_empty s"
    using that by (simp add: Pop_def MutatorsStack_is_empty_def)
  have new: "Pop (MutatorsStack_ctor :: ('rr, 'rse, 'path, 'f) MutatorsStack) = Inl EmptyStack"
    by (simp add: Pop_def MutatorsStack_ctor_def)
  show ?thesis using Pop_push_call [of a p s] nonempty empty new by blast
qed

theorem Pop_removes_last_pushed_witness:
  "stack_count scenario_B_stack = 2 \<and>
   Pop scenario_B_stack = Inr (push_call 1 (ClipRect rect_0_0_100_100) MutatorsStack_ctor) \<and>
   stack_count (push_call 1 (ClipRect rect_0_0_100_100)
      (MutatorsStack_ctor :: (unit, unit, unit, unit) MutatorsStack)) = 1 \<and>
   map pointee (vector_m (push_call 1 (ClipRect rect_0_0_100_100)
      (MutatorsStack_ctor :: (unit, unit, unit, unit) MutatorsStack))) =
     [Mutator_rect rect_0_0_100_100] \<and>
   Pop (push_call 1 (ClipRect rect_0_0_100_100)
      (MutatorsStack_ctor :: (unit, unit, unit, unit) MutatorsStack)) = Inr MutatorsStack_ctor \<and>
   MutatorsStack_is_empty (MutatorsStack_ctor :: (unit, unit, unit, unit) MutatorsStack) \<and>
   Pop (MutatorsStack_ctor :: (unit, unit, unit, unit) MutatorsStack) = Inl EmptyStack"
proof -
  let ?one = "push_call 1 (ClipRect rect_0_0_100_100)
      (MutatorsStack_ctor :: (unit, unit, unit, unit) MutatorsStack)"
  have first: "Pop scenario_B_stack = Inr ?one"
    unfolding scenario_B_stack_def
    using Pop_removes_last_pushed [of 2 "Opacity 128" ?one] by blast
  have second: "Pop ?one = Inr MutatorsStack_ctor"
    using Pop_removes_last_pushed
      [of 1 "ClipRect rect_0_0_100_100"
          "MutatorsStack_ctor :: (unit, unit, unit, unit) MutatorsStack"]
    by blast
  have e: "MutatorsStack_is_empty (MutatorsStack_ctor :: (unit, unit, unit, unit) MutatorsStack)"
    by (simp add: MutatorsStack_is_empty_def MutatorsStack_ctor_def)
  have third: "Pop (MutatorsStack_ctor :: (unit, unit, unit, unit) MutatorsStack) =
      Inl EmptyStack"
    using Pop_removes_last_pushed
      [of 1 "ClipRect rect_0_0_100_100"
          "MutatorsStack_ctor :: (unit, unit, unit, unit) MutatorsStack"] e
    by blast
  have c2: "stack_count scenario_B_stack = 2"
    by (simp add: scenario_B_stack_def stack_count_def vector_push_call MutatorsStack_ctor_def
          del: push_call.simps)
  have c1: "stack_count ?one = 1"
    by (simp add: stack_count_def vector_push_call MutatorsStack_ctor_def del: push_call.simps)
  have rest: "map pointee (vector_m ?one) = [Mutator_rect rect_0_0_100_100]"
    by (simp add: vector_push_call MutatorsStack_ctor_def make_shared_def del: push_call.simps)
  show ?thesis using first second third e c2 c1 rest by (intro conjI)
qed

subsection \<open>EmbeddedViewParams\<close>

text \<open>
  C2. \<^verbatim>\<open>PushImageFilter(filter, rect)\<close> leaves \<^verbatim>\<open>finalBoundingRect()\<close>,
  \<^verbatim>\<open>transformMatrix()\<close> and \<^verbatim>\<open>sizePoints()\<close> unchanged and replaces the owned
  stack by what \<^verbatim>\<open>PushBackdropFilter\<close> makes of it, whatever body that member
  has; on parameters built by the constructor the bounding rectangle is still the
  one computed at construction, it is not computed again.  With the body modelled
  from the spec, exactly one Mutator is appended to the owned stack, a backdrop
  filter that holds the filter and the rectangle, so \<^verbatim>\<open>stack_count()\<close> grows by
  one.
\<close>

theorem PushImageFilter_frame:
  "finalBoundingRect (PushImageFilter pbf f r p) =
     finalBoundingRect (p :: ('rr, 'rse, 'path, 'f) EmbeddedViewParams) \<and>
   transformMatrix (PushImageFilter pbf f r p) = transformMatrix p \<and>
   sizePoints (PushImageFilter pbf f r p) = sizePoints p \<and>
   mutatorsStack (PushImageFilter pbf f r p) = pbf f r (mutatorsStack p) \<and>
   finalBoundingRect (PushImageFilter pbf f r
      (EmbeddedViewParams_ctor tcb M S (ST :: ('rr, 'rse, 'path, 'f) MutatorsStack))) =
     tcb (MakeSize S) M \<and>
   stack_count (mutatorsStack (PushImageFilter (PushBackdropFilter a) f r p)) =
     stack_count (mutatorsStack p) + 1 \<and>
   vector_m (mutatorsStack (PushImageFilter (PushBackdropFilter a) f r p)) =
     vector_m (mutatorsStack p) @ [make_shared a (Mutator_filter f r)] \<and>
   GetType (Mutator_filter f r :: ('rr, 'rse, 'path, 'f) Mutator) = kBackdropFilter \<and>
   GetFilterMutation (Mutator_filter f r :: ('rr, 'rse, 'path, 'f) Mutator) =
     Inr \<lparr>filter_m = f, filter_rect_m = r\<rparr>"
  by (simp add: PushImageFilter_def mutatorsStack_def finalBoundingRect_def
        transformMatrix_def sizePoints_def PushBackdropFilter_def push_back_def
        stack_count_def GetType_ctor matching_accessor ImageFilterMutation_ctor_def
        EmbeddedViewParams_ctor_def)

text \<open>
  C1. The constructor stores as \<^verbatim>\<open>finalBoundingRect()\<close> the bounds transform of
  the rectangle \<open>(0, 0, width, height)\<close> of the size under the matrix, whatever
  function \<open>tcb\<close> the bounds transform is, and stores the matrix, the size and the
  stack as given.  With the bounds transform modelled from the spec, a translation
  by \<open>(10, 10)\<close> and the size \<open>(50, 50)\<close> give the rectangle \<open>(10, 10, 60, 60)\<close>;
  in general a translation by \<open>(tx, ty)\<close> of a size with no negative side gives
  \<open>(tx, ty, tx + width, ty + height)\<close>.
\<close>

theorem finalBoundingRect_at_construction:
  "finalBoundingRect (EmbeddedViewParams_ctor tcb M S ST) = tcb (MakeSize S) M \<and>
   MakeSize S = \<lparr>rect_left = 0, rect_top = 0, rect_right = size_width S,
                  rect_bottom = size_height S\<rparr> \<and>
   transformMatrix (EmbeddedViewParams_ctor tcb M S ST) = M \<and>
   sizePoints (EmbeddedViewParams_ctor tcb M S ST) = S \<and>
   mutatorsStack (EmbeddedViewParams_ctor tcb M S ST) = ST \<and>
   finalBoundingRect
     (EmbeddedViewParams_ctor TransformAndClipBounds (MakeTranslation 10 10)
        \<lparr>size_width = 50, size_height = 50\<rparr> ST) =
     \<lparr>rect_left = 10, rect_top = 10, rect_right = 60, rect_bottom = 60\<rparr> \<and>
   (0 \<le> size_width S \<and> 0 \<le> size_height S \<longrightarrow>
      finalBoundingRect
        (EmbeddedViewParams_ctor TransformAndClipBounds (MakeTranslation tx ty) S ST) =
        \<lparr>rect_left = tx, rect_top = ty, rect_right = tx + size_width S,
         rect_bottom = ty + size_height S\<rparr>)"
  by (simp add: EmbeddedViewParams_ctor_def finalBoundingRect_def transformMatrix_def
        sizePoints_def mutatorsStack_def MakeSize_def TransformAndClipBounds_def
        MakeTranslation_def transform_x_def transform_y_def min4_def max4_def)

theorem finalBoundingRect_at_construction_witness:
  "(0::real) \<le> size_width \<lparr>size_width = 50, size_height = 50\<rparr> \<and>
   (0::real) \<le> size_height \<lparr>size_width = 50, size_height = 50\<rparr> \<and>
   finalBoundingRect scenario_A_params =
     TransformAndClipBounds (MakeSize \<lparr>size_width = 50, size_height = 50\<rparr>)
       (MakeTranslation 10 10) \<and>
   finalBoundingRect scenario_A_params =
     \<lparr>rect_left = 10, rect_top = 10, rect_right = 60, rect_bottom = 60\<rparr> \<and>
   stack_count (mutatorsStack scenario_A_params) = 2"
proof -
  note inst = finalBoundingRect_at_construction
    [of TransformAndClipBounds "MakeTranslation 10 10" "\<lparr>size_width = 50, size_height = 50\<rparr>"
        scenario_A_stack 10 10]
  have w: "(0::real) \<le> size_width \<lparr>size_width = 50, size_height = 50\<rparr>" by simp
  have h: "(0::real) \<le> size_height \<lparr>size_width = 50, size_height = 50\<rparr>" by simp
  have a: "finalBoundingRect scenario_A_params =
      TransformAndClipBounds (MakeSize \<lparr>size_width = 50, size_height = 50\<rparr>)
        (MakeTranslation 10 10)"
    unfolding scenario_A_params_def using inst by blast
  have "finalBoundingRect scenario_A_params =
      \<lparr>rect_left = 10, rect_top = 10, rect_right = 10 + size_width \<lparr>size_width = 50, size_height = 50\<rparr>,
       rect_bottom = 10 + size_height \<lparr>size_width = 50, size_height = 50\<rparr>\<rparr>"
    unfolding scenario_A_params_def using inst w h by blast
  then have b: "finalBoundingRect scenario_A_params =
      \<lparr>rect_left = 10, rect_top = 10, rect_right = 60, rect_bottom = 60\<rparr>"
    by simp
  have "mutatorsStack scenario_A_params = scenario_A_stack"
    unfolding scenario_A_params_def using inst by blast
  then have c: "stack_count (mutatorsStack scenario_A_params) = 2"
    by (simp add: scenario_A_stack_def stack_count_def PushTransform_def PushClipRect_def
          push_back_def MutatorsStack_ctor_def)
  show ?thesis using w h a b c by (intro conjI)
qed

theorem PushImageFilter_frame_witness:
  "stack_count (mutatorsStack scenario_A_params) = 2 \<and>
   stack_count (mutatorsStack
     (PushImageFilter (PushBackdropFilter 3) (Some \<lparr>address = 40, pointee = ()\<rparr>) rect_0_0_100_100
        scenario_A_params)) = 3 \<and>
   finalBoundingRect
     (PushImageFilter (PushBackdropFilter 3) (Some \<lparr>address = 40, pointee = ()\<rparr>) rect_0_0_100_100
        scenario_A_params) =
     \<lparr>rect_left = 10, rect_top = 10, rect_right = 60, rect_bottom = 60\<rparr> \<and>
   transformMatrix
     (PushImageFilter (PushBackdropFilter 3) (Some \<lparr>address = 40, pointee = ()\<rparr>) rect_0_0_100_100
        scenario_A_params) =
     MakeTranslation 10 10 \<and>
   sizePoints
     (PushImageFilter (PushBackdropFilter 3) (Some \<lparr>address = 40, pointee = ()\<rparr>) rect_0_0_100_100
        scenario_A_params) =
     \<lparr>size_width = 50, size_height = 50\<rparr>"
proof -
  let ?p' = "PushImageFilter (PushBackdropFilter 3) (Some \<lparr>address = 40, pointee = ()\<rparr>)
      rect_0_0_100_100 scenario_A_params"
  note inst = PushImageFilter_frame
    [of "PushBackdropFilter 3" "Some \<lparr>address = 40, pointee = ()\<rparr>" rect_0_0_100_100
        scenario_A_params TransformAndClipBounds "MakeTranslation 10 10"
        "\<lparr>size_width = 50, size_height = 50\<rparr>" scenario_A_stack 3]
  have two: "stack_count (mutatorsStack scenario_A_params) = 2"
    by (simp add: scenario_A_params_def scenario_A_stack_def EmbeddedViewParams_ctor_def
          mutatorsStack_def stack_count_def PushTransform_def PushClipRect_def push_back_def
          MutatorsStack_ctor_def)
  have r: "finalBoundingRect scenario_A_params =
      \<lparr>rect_left = 10, rect_top = 10, rect_right = 60, rect_bottom = 60\<rparr>"
    by (simp add: scenario_A_params_def EmbeddedViewParams_ctor_def finalBoundingRect_def
          MakeSize_def TransformAndClipBounds_def MakeTranslation_def transform_x_def
          transform_y_def min4_def max4_def)
  have m: "transformMatrix scenario_A_params = MakeTranslation 10 10"
    by (simp add: scenario_A_params_def EmbeddedViewParams_ctor_def transformMatrix_def)
  have z: "sizePoints scenario_A_params = \<lparr>size_width = 50, size_height = 50\<rparr>"
    by (simp add: scenario_A_params_def EmbeddedViewParams_ctor_def sizePoints_def)
  from inst have "stack_count (mutatorsStack ?p') = stack_count (mutatorsStack scenario_A_params) + 1"
    by blast
  then have three: "stack_count (mutatorsStack ?p') = 3" using two by simp
  from inst have "finalBoundingRect ?p' = finalBoundingRect scenario_A_params" by blast
  then have r': "finalBoundingRect ?p' =
      \<lparr>rect_left = 10, rect_top = 10, rect_right = 60, rect_bottom = 60\<rparr>"
    using r by simp
  from inst have "transformMatrix ?p' = transformMatrix scenario_A_params" by blast
  then have m': "transformMatrix ?p' = MakeTranslation 10 10" using m by simp
  from inst have "sizePoints ?p' = sizePoints scenario_A_params" by blast
  then have z': "sizePoints ?p' = \<lparr>size_width = 50, size_height = 50\<rparr>" using z by simp
  show ?thesis using two three r' m' z' by (intro conjI)
qed

subsection \<open>The flag of the embedder\<close>

lemma dispatch_base_flag:
  "base_call V c \<Longrightarrow> GetUsedThisFrame (dispatch V c e) = last_set (GetUsedThisFrame e) [c]"
  by (cases c)
     (simp_all add: GetUsedThisFrame_def SetUsedThisFrame_def
        PostPrerollAction_def EndFrame_def PushVisitedPlatformView_def
        PushFilterToVisitedPlatformViews_def)

lemma keeps_flagD:
  assumes "keeps_flag V"
  shows "GetUsedThisFrame (BeginFrame_impl V c m e) = GetUsedThisFrame e"
    and "GetUsedThisFrame (PrerollCompositeEmbeddedView_impl V i p e) = GetUsedThisFrame e"
    and "GetUsedThisFrame (PrepareFlutterView_impl V sz d e) = GetUsedThisFrame e"
    and "GetUsedThisFrame (SubmitFlutterView_impl V i c a f e) = GetUsedThisFrame e"
    and "PostPrerollAction_override V = Some pbody \<Longrightarrow>
         GetUsedThisFrame (snd (pbody m e)) = GetUsedThisFrame e"
    and "EndFrame_override V = Some ebody \<Longrightarrow>
         GetUsedThisFrame (ebody r m e) = GetUsedThisFrame e"
    and "PushVisitedPlatformView_override V = Some vbody \<Longrightarrow>
         GetUsedThisFrame (vbody i e) = GetUsedThisFrame e"
    and "PushFilterToVisitedPlatformViews_override V = Some fbody \<Longrightarrow>
         GetUsedThisFrame (fbody fl fr e) = GetUsedThisFrame e"
proof -
  note k = assms [unfolded keeps_flag_def]
  show "GetUsedThisFrame (BeginFrame_impl V c m e) = GetUsedThisFrame e"
    by (rule k [THEN conjunct1, rule_format])
  show "GetUsedThisFrame (PrerollCompositeEmbeddedView_impl V i p e) = GetUsedThisFrame e"
    by (rule k [THEN conjunct2, THEN conjunct1, rule_format])
  show "GetUsedThisFrame (PrepareFlutterView_impl V sz d e) = GetUsedThisFrame e"
    by (rule k [THEN conjunct2, THEN conjunct2, THEN conjunct1, rule_format])
  show "GetUsedThisFrame (SubmitFlutterView_impl V i c a f e) = GetUsedThisFrame e"
    by (rule k [THEN conjunct2, THEN conjunct2, THEN conjunct2, THEN conjunct1, rule_format])
  show "GetUsedThisFrame (snd (pbody m e)) = GetUsedThisFrame e"
    if "PostPrerollAction_override V = Some pbody"
    using that by (rule k [THEN conjunct2, THEN conjunct2, THEN conjunct2, THEN conjunct2, THEN conjunct1, rule_format])
  show "GetUsedThisFrame (ebody r m e) = GetUsedThisFrame e"
    if "EndFrame_override V = Some ebody"
    using that by (rule k [THEN conjunct2, THEN conjunct2, THEN conjunct2, THEN conjunct2, THEN conjunct2, THEN conjunct1, rule_format])
  show "GetUsedThisFrame (vbody i e) = GetUsedThisFrame e"
    if "PushVisitedPlatformView_override V = Some vbody"
    using that by (rule k [THEN conjunct2, THEN conjunct2, THEN conjunct2, THEN conjunct2, THEN conjunct2, THEN conjunct2, THEN conjunct1, rule_format])
  show "GetUsedThisFrame (fbody fl fr e) = GetUsedThisFrame e"
    if "PushFilterToVisitedPlatformViews_override V = Some fbody"
    using that by (rule k [THEN conjunct2, THEN conjunct2, THEN conjunct2, THEN conjunct2, THEN conjunct2, THEN conjunct2, THEN conjunct2, rule_format])
qed

lemma dispatch_kept_flag:
  "keeps_flag V \<Longrightarrow> GetUsedThisFrame (dispatch V c e) = last_set (GetUsedThisFrame e) [c]"
proof (cases "base_call V c")
  case True
  then show ?thesis by (rule dispatch_base_flag)
next
  case False
  assume "keeps_flag V"
  with False show ?thesis
    by (cases c) (auto simp: keeps_flagD split: option.splits)
qed

lemma last_set_Cons: "last_set b (c # cs) = last_set (last_set b [c]) cs"
  by (cases c) simp_all

lemma run_base_flag:
  "\<forall>c \<in> set cs. base_call V c \<Longrightarrow>
   GetUsedThisFrame (run V cs e) = last_set (GetUsedThisFrame e) cs"
proof (induction cs arbitrary: e)
  case Nil
  then show ?case by simp
next
  case (Cons c cs)
  then have "GetUsedThisFrame (run V (c # cs) e) =
      last_set (GetUsedThisFrame (dispatch V c e)) cs"
    by simp
  also have "\<dots> = last_set (last_set (GetUsedThisFrame e) [c]) cs"
    using Cons.prems by (simp add: dispatch_base_flag)
  finally show ?case by (simp add: last_set_Cons [of _ c cs])
qed

lemma run_kept_flag:
  "keeps_flag V \<Longrightarrow> GetUsedThisFrame (run V cs e) = last_set (GetUsedThisFrame e) cs"
proof (induction cs arbitrary: e)
  case Nil
  then show ?case by simp
next
  case (Cons c cs)
  then have "GetUsedThisFrame (run V (c # cs) e) =
      last_set (GetUsedThisFrame (dispatch V c e)) cs"
    by simp
  also have "\<dots> = last_set (last_set (GetUsedThisFrame e) [c]) cs"
    using Cons.prems by (simp add: dispatch_kept_flag)
  finally show ?case by (simp add: last_set_Cons [of _ c cs])
qed

lemma keeps_flag_empty_overrides: "keeps_flag empty_overrides"
  by (simp add: keeps_flag_def empty_overrides_def)

text \<open>
  C10. On the base class the flag changes only through \<^verbatim>\<open>SetUsedThisFrame\<close>.
  \<^verbatim>\<open>GetUsedThisFrame()\<close> is false on a new embedder and, after a call of the
  setter, the value passed; the default bodies of \<^verbatim>\<open>EndFrame\<close>,
  \<^verbatim>\<open>PostPrerollAction\<close> (which returns kSuccess), \<^verbatim>\<open>PushVisitedPlatformView\<close> and
  \<^verbatim>\<open>PushFilterToVisitedPlatformViews\<close> leave it as it is.  So after any sequence
  of calls that the bodies of the header answer, the getter returns the last value
  passed to the setter, or the value before the sequence (false on a new
  embedder) when the setter was never called; the same holds with the bodies of a
  derived class in the sequence, as long as those keep the flag.
\<close>

theorem used_this_frame_only_set:
  "GetUsedThisFrame ExternalViewEmbedder_ctor = False \<and>
   GetUsedThisFrame (SetUsedThisFrame b e) = b \<and>
   GetUsedThisFrame (EndFrame r m e) = GetUsedThisFrame e \<and>
   PostPrerollAction m e = (kSuccess, e) \<and>
   GetUsedThisFrame (PushVisitedPlatformView i e) = GetUsedThisFrame e \<and>
   GetUsedThisFrame (PushFilterToVisitedPlatformViews fl fr e) = GetUsedThisFrame e \<and>
   ((\<forall>c \<in> set cs. base_call V c) \<longrightarrow>
      GetUsedThisFrame (run V cs e) = last_set (GetUsedThisFrame e) cs) \<and>
   ((\<forall>c \<in> set cs. base_call W c) \<longrightarrow>
      GetUsedThisFrame (run W cs ExternalViewEmbedder_ctor) = last_set False cs) \<and>
   (keeps_flag V \<longrightarrow> GetUsedThisFrame (run V ds e) = last_set (GetUsedThisFrame e) ds)"
proof -
  have "keeps_flag V \<longrightarrow> GetUsedThisFrame (run V ds e) = last_set (GetUsedThisFrame e) ds"
    using run_kept_flag [of V ds e] by simp
  moreover
  have "(\<forall>c \<in> set cs. base_call W c) \<longrightarrow>
      GetUsedThisFrame (run W cs ExternalViewEmbedder_ctor) = last_set False cs"
    using run_base_flag [of cs W ExternalViewEmbedder_ctor]
    by (simp add: GetUsedThisFrame_def ExternalViewEmbedder_ctor_def)
  moreover have "(\<forall>c \<in> set cs. base_call V c) \<longrightarrow>
      GetUsedThisFrame (run V cs e) = last_set (GetUsedThisFrame e) cs"
    using run_base_flag [of cs V e] by simp
  ultimately show ?thesis
    by (simp add: GetUsedThisFrame_def SetUsedThisFrame_def ExternalViewEmbedder_ctor_def
          EndFrame_def PostPrerollAction_def PushVisitedPlatformView_def
          PushFilterToVisitedPlatformViews_def)
qed

theorem used_this_frame_only_set_witness:
  "list_all (base_call (empty_overrides :: (ExternalViewEmbedder, unit) overrides))
     base_calls_example \<and>
   GetUsedThisFrame (run empty_overrides base_calls_example ExternalViewEmbedder_ctor) = True \<and>
   GetUsedThisFrame
     (run empty_overrides (base_calls_example @ [Call_SetUsedThisFrame False])
        ExternalViewEmbedder_ctor) = False"
proof -
  let ?W = "empty_overrides :: (ExternalViewEmbedder, unit) overrides"
  have a: "\<forall>c \<in> set base_calls_example. base_call ?W c"
    by (simp add: base_calls_example_def empty_overrides_def)
  then have b: "\<forall>c \<in> set (base_calls_example @ [Call_SetUsedThisFrame False]). base_call ?W c"
    by simp
  have "GetUsedThisFrame (run ?W base_calls_example ExternalViewEmbedder_ctor) =
      last_set False base_calls_example"
    using used_this_frame_only_set [where cs = base_calls_example and W = ?W] a
    by blast
  then have c: "GetUsedThisFrame (run ?W base_calls_example ExternalViewEmbedder_ctor) = True"
    by (simp add: base_calls_example_def)
  have "GetUsedThisFrame
      (run ?W (base_calls_example @ [Call_SetUsedThisFrame False]) ExternalViewEmbedder_ctor) =
      last_set False (base_calls_example @ [Call_SetUsedThisFrame False])"
    using used_this_frame_only_set
      [where cs = "base_calls_example @ [Call_SetUsedThisFrame False]" and W = ?W] b
    by blast
  then have d: "GetUsedThisFrame
      (run ?W (base_calls_example @ [Call_SetUsedThisFrame False]) ExternalViewEmbedder_ctor) =
      False"
    by (simp add: base_calls_example_def)
  have a': "list_all (base_call ?W) base_calls_example"
    using a by (simp add: list_all_iff)
  show ?thesis using a' c d by (intro conjI)
qed

subsection \<open>The flag during a frame\<close>

lemma butlast_replicate_Suc: "butlast (replicate (n + 1) x) = replicate n x"
  by (induction n) simp_all

lemma replicate_shift: "replicate n x @ x # ys = replicate (n + 1) x @ ys"
  by (induction n) simp_all

lemma used_trace_append:
  "used_trace V (cs @ ds) e = butlast (used_trace V cs e) @ used_trace V ds (run V cs e)"
proof (induction cs arbitrary: e)
  case Nil
  then show ?case by simp
next
  case (Cons c cs)
  have "used_trace V cs (dispatch V c e) \<noteq> []" by (cases cs) simp_all
  then show ?case using Cons by simp
qed

lemma last_set_unset: "\<forall>c \<in> set cs. \<not> sets_flag c \<Longrightarrow> last_set x cs = x"
proof (induction cs)
  case Nil
  then show ?case by simp
next
  case (Cons c cs)
  then show ?case by (cases c) simp_all
qed

lemma used_trace_unset:
  assumes "keeps_flag V" and "\<forall>c \<in> set cs. \<not> sets_flag c"
  shows "used_trace V cs e = replicate (length cs + 1) (GetUsedThisFrame e)"
  using assms(2)
proof (induction cs arbitrary: e)
  case Nil
  then show ?case by simp
next
  case (Cons c cs)
  have "GetUsedThisFrame (dispatch V c e) = last_set (GetUsedThisFrame e) [c]"
    using assms(1) by (rule dispatch_kept_flag)
  also have "\<dots> = GetUsedThisFrame e"
    using Cons.prems by (intro last_set_unset) simp
  finally have same: "GetUsedThisFrame (dispatch V c e) = GetUsedThisFrame e" .
  have "used_trace V cs (dispatch V c e) =
      replicate (length cs + 1) (GetUsedThisFrame (dispatch V c e))"
    using Cons by simp
  then show ?case using same by simp
qed

lemma submit_calls_unset: "\<forall>c \<in> set (submit_calls vs). \<not> sets_flag c"
  by (induction vs rule: submit_calls.induct) simp_all

lemma inner_calls_unset: "\<forall>c \<in> set (inner_calls ps m vs). \<not> sets_flag c"
  using submit_calls_unset [of vs]
  by (auto simp: inner_calls_def preroll_calls_def)

lemma inner_calls_trace:
  assumes "keeps_flag V"
  shows "used_trace V (inner_calls ps m vs :: 'f call list) e =
      replicate (length (inner_calls ps m vs :: 'f call list) + 1) (GetUsedThisFrame e)"
    and "GetUsedThisFrame (run V (inner_calls ps m vs :: 'f call list) e) = GetUsedThisFrame e"
proof -
  have unset: "\<forall>c \<in> set (inner_calls ps m vs :: 'f call list). \<not> sets_flag c"
    by (rule inner_calls_unset)
  show "used_trace V (inner_calls ps m vs :: 'f call list) e =
      replicate (length (inner_calls ps m vs :: 'f call list) + 1) (GetUsedThisFrame e)"
    using assms unset by (rule used_trace_unset)
  show "GetUsedThisFrame (run V (inner_calls ps m vs :: 'f call list) e) = GetUsedThisFrame e"
    unfolding run_kept_flag [OF assms] by (rule last_set_unset [OF unset])
qed

lemma Get_Set: "GetUsedThisFrame (SetUsedThisFrame b e) = b"
  by (simp add: GetUsedThisFrame_def SetUsedThisFrame_def)

lemma begin_calls_trace:
  assumes "keeps_flag V" and "\<not> GetUsedThisFrame e"
  shows "used_trace V (begin_calls set_first c m) e = [False, set_first, True]"
    and "GetUsedThisFrame (run V (begin_calls set_first c m) e)"
  using assms
  by (simp_all add: begin_calls_def dispatch_kept_flag Get_Set del: dispatch.simps)

lemma end_calls_trace:
  assumes "keeps_flag V" and "GetUsedThisFrame e"
  shows "used_trace V (end_calls reset_first r m) e = [True, \<not> reset_first, False]"
  using assms
  by (simp add: end_calls_def dispatch_kept_flag Get_Set del: dispatch.simps)

text \<open>
  C6, as amended.  The frame calls themselves never set the flag: the caller does,
  with \<^verbatim>\<open>SetUsedThisFrame(true)\<close> directly before or after \<^verbatim>\<open>BeginFrame\<close> and
  \<^verbatim>\<open>SetUsedThisFrame(false)\<close> directly before or after \<^verbatim>\<open>EndFrame\<close>, as the
  header's comment on the class describes.  For such a frame on an embedder whose
  flag is false (a new one included) and whose derived class keeps the flag,
  \<^verbatim>\<open>GetUsedThisFrame()\<close> is false before the first call, true at every point from
  \<^verbatim>\<open>SetUsedThisFrame(true)\<close> to \<^verbatim>\<open>SetUsedThisFrame(false)\<close>, and false after the
  last call.  The list on the right is the value before each call and after the
  last.
\<close>

theorem used_this_frame_during_driven_frame:
  assumes "keeps_flag V" and "\<not> GetUsedThisFrame e"
  shows "used_trace V
           (driven_frame_calls set_first reset_first c m ps m' vs r m'' :: 'f call list) e =
           [False, set_first] @
           replicate (length (inner_calls ps m' vs :: 'f call list) + 1) True @
           [\<not> reset_first, False]"
proof -
  let ?b = "begin_calls set_first c m :: 'f call list"
  let ?i = "inner_calls ps m' vs :: 'f call list"
  let ?e = "end_calls reset_first r m'' :: 'f call list"
  have on: "GetUsedThisFrame (run V ?b e)"
    using assms by (rule begin_calls_trace)
  have still: "GetUsedThisFrame (run V ?i (run V ?b e))"
    using on inner_calls_trace(2) [OF assms(1), of ps m' vs "run V ?b e"] by simp
  have "used_trace V (?b @ ?i @ ?e) e =
      butlast (used_trace V ?b e) @ butlast (used_trace V ?i (run V ?b e)) @
      used_trace V ?e (run V ?i (run V ?b e))"
    by (simp add: used_trace_append)
  also have "used_trace V ?b e = [False, set_first, True]"
    using assms by (rule begin_calls_trace)
  also have "used_trace V ?i (run V ?b e) = replicate (length ?i + 1) True"
    using inner_calls_trace(1) [OF assms(1), of ps m' vs "run V ?b e"] on by simp
  also have "used_trace V ?e (run V ?i (run V ?b e)) = [True, \<not> reset_first, False]"
    using assms(1) still by (rule end_calls_trace)
  finally have "used_trace V (?b @ ?i @ ?e) e =
      [False, set_first] @ replicate (length ?i) True @ True # [\<not> reset_first, False]"
    by (simp only: butlast_replicate_Suc butlast.simps append.simps list.simps if_False
          if_True simp_thms)
  then show ?thesis
    by (simp only: driven_frame_calls_def replicate_shift)
qed

theorem used_this_frame_during_driven_frame_witness:
  "keeps_flag (empty_overrides :: (ExternalViewEmbedder, unit) overrides) \<and>
   \<not> GetUsedThisFrame ExternalViewEmbedder_ctor \<and>
   used_trace empty_overrides one_view_driven_frame ExternalViewEmbedder_ctor =
     [False, False, True, True, True, True, True, False, False]"
proof -
  have k: "keeps_flag (empty_overrides :: (ExternalViewEmbedder, unit) overrides)"
    by (rule keeps_flag_empty_overrides)
  have f: "\<not> GetUsedThisFrame ExternalViewEmbedder_ctor"
    by (simp add: GetUsedThisFrame_def ExternalViewEmbedder_ctor_def)
  have n: "length (inner_calls [(7, 1)] 0 [(((800, 600), 2), (0, 1, 2, 3))] :: unit call list) = 4"
    by (simp add: inner_calls_def preroll_calls_def)
  have "used_trace empty_overrides one_view_driven_frame ExternalViewEmbedder_ctor =
      [False, False] @ replicate (4 + 1) True @ [\<not> True, False]"
    unfolding one_view_driven_frame_def
    using used_this_frame_during_driven_frame
      [OF k f, of False True 0 0 "[(7, 1)]" 0 "[(((800, 600), 2), (0, 1, 2, 3))]" False 0]
    by (simp only: n)
  then have t: "used_trace empty_overrides one_view_driven_frame ExternalViewEmbedder_ctor =
      [False, False, True, True, True, True, True, False, False]"
    by (simp add: numeral_eq_Suc)
  show ?thesis using k f t by (intro conjI)
qed

text \<open>
  C6 as stated fails: in a frame made of the lifecycle's calls alone, on a new
  embedder whose derived class has empty bodies, \<^verbatim>\<open>GetUsedThisFrame()\<close> is false
  right after \<^verbatim>\<open>BeginFrame\<close> and at every later point.
\<close>

theorem used_this_frame_false_inside_frame:
  "\<not> GetUsedThisFrame
       (run empty_overrides [Call_BeginFrame 0 0 :: unit call] ExternalViewEmbedder_ctor) \<and>
   used_trace empty_overrides one_view_frame ExternalViewEmbedder_ctor =
     [False, False, False, False, False, False, False]"
  by (simp add: one_view_frame_def frame_calls_def inner_calls_def preroll_calls_def
        empty_overrides_def GetUsedThisFrame_def ExternalViewEmbedder_ctor_def
        PostPrerollAction_def EndFrame_def)

subsection \<open>Regions\<close>

lemma IRect_Contains_Intersection:
  "IRect_Contains (IRect_Intersection a b) p \<longleftrightarrow> IRect_Contains a p \<and> IRect_Contains b p"
  by (auto simp: IRect_Contains_def IRect_Intersection_def)

lemma IRect_IsEmpty_no_point: "IRect_IsEmpty r \<Longrightarrow> \<not> IRect_Contains r p"
  by (auto simp: IRect_IsEmpty_def IRect_Contains_def)

lemma IRect_nonempty_corner:
  "\<not> IRect_IsEmpty r \<Longrightarrow> IRect_Contains r (irect_left r, irect_top r)"
  by (auto simp: IRect_IsEmpty_def IRect_Contains_def)

lemma Region_Contains_iff:
  "Region_Contains g p \<longleftrightarrow> (\<exists>r \<in> set (rects g). IRect_Contains r p)"
  by (simp add: Region_Contains_def list_ex_iff)

lemma Region_Contains_ctor: "Region_Contains (DlRegion_ctor r) p \<longleftrightarrow> IRect_Contains r p"
  by (auto simp: DlRegion_ctor_def Region_Contains_def IRect_IsEmpty_no_point)

lemma Region_Contains_MakeIntersection:
  "Region_Contains (MakeIntersection a b) p \<longleftrightarrow> Region_Contains a p \<and> Region_Contains b p"
proof
  assume "Region_Contains (MakeIntersection a b) p"
  then obtain x y where "x \<in> set (rects a)" "y \<in> set (rects b)"
      "IRect_Contains (IRect_Intersection x y) p"
    by (auto simp: Region_Contains_iff MakeIntersection_def)
  then show "Region_Contains a p \<and> Region_Contains b p"
    by (auto simp: Region_Contains_iff IRect_Contains_Intersection)
next
  assume "Region_Contains a p \<and> Region_Contains b p"
  then obtain x y where xy: "x \<in> set (rects a)" "y \<in> set (rects b)"
      "IRect_Contains x p" "IRect_Contains y p"
    by (auto simp: Region_Contains_iff)
  then have in_it: "IRect_Contains (IRect_Intersection x y) p"
    by (simp add: IRect_Contains_Intersection)
  then have "\<not> IRect_IsEmpty (IRect_Intersection x y)"
    using IRect_IsEmpty_no_point by blast
  then have "IRect_Intersection x y \<in> set (rects (MakeIntersection a b))"
    using xy by (auto simp: MakeIntersection_def)
  then show "Region_Contains (MakeIntersection a b) p"
    using in_it by (auto simp: Region_Contains_iff)
qed

lemma Region_isEmpty_MakeIntersection:
  "Region_isEmpty (MakeIntersection a b) \<longleftrightarrow> (\<forall>p. \<not> Region_Contains (MakeIntersection a b) p)"
proof
  assume "Region_isEmpty (MakeIntersection a b)"
  then show "\<forall>p. \<not> Region_Contains (MakeIntersection a b) p"
    by (simp add: Region_isEmpty_def Region_Contains_def)
next
  assume none: "\<forall>p. \<not> Region_Contains (MakeIntersection a b) p"
  show "Region_isEmpty (MakeIntersection a b)"
  proof (rule ccontr)
    assume "\<not> Region_isEmpty (MakeIntersection a b)"
    then have "\<exists>r. r \<in> set (rects (MakeIntersection a b))"
      by (cases "rects (MakeIntersection a b)") (auto simp: Region_isEmpty_def)
    then obtain r where r: "r \<in> set (rects (MakeIntersection a b))" ..
    then have "\<not> IRect_IsEmpty r" by (auto simp: MakeIntersection_def)
    then have "IRect_Contains r (irect_left r, irect_top r)"
      by (rule IRect_nonempty_corner)
    then have "Region_Contains (MakeIntersection a b) (irect_left r, irect_top r)"
      using r by (auto simp: Region_Contains_iff)
    then show False using none by blast
  qed
qed

lemma Region_isEmpty_MakeIntersection_left:
  "Region_isEmpty a \<Longrightarrow> Region_isEmpty (MakeIntersection a b)"
  by (simp add: Region_isEmpty_def MakeIntersection_def)

lemma RoundOut_encloses: "IRect_encloses (RoundOut q) q"
  by (simp add: IRect_encloses_def RoundOut_def)

lemma RoundOut_smallest: "IRect_encloses i q \<Longrightarrow> IRect_within (RoundOut q) i"
  by (simp add: IRect_encloses_def IRect_within_def RoundOut_def le_floor_iff ceiling_le_iff)

lemma region_of_getRegion:
  assumes "get s = Inr full"
  shows "region get q s = Inr (MakeIntersection full (DlRegion_ctor (RoundOut q)))"
  using assms by (simp add: region_def)

lemma end_recording_getRegion:
  assumes "end_recording s0 = Inr s"
  shows "\<exists>ops. builder_m s0 = Some ops \<and> display_list_m s = Some ops \<and>
           getRegion s = Inr (drawn_region ops) \<and> slice_is_empty s = (ops = [])"
  using assms
  by (auto simp: end_recording_def getRegion_def slice_is_empty_def split: option.splits)

text \<open>
  C4. For a recording slice on which \<^verbatim>\<open>end_recording()\<close> has returned and every
  query rectangle, \<^verbatim>\<open>region(query)\<close> returns a region that holds exactly the
  points of \<^verbatim>\<open>getRegion()\<close> that lie in the query rounded out; the rounded-out
  query encloses the query and lies within every integer rectangle that does (it
  is the smallest one); the result is empty exactly when it holds no point, and
  it is empty when nothing was drawn (\<^verbatim>\<open>is_empty()\<close> is true).
\<close>

theorem region_after_end_recording:
  assumes "end_recording s0 = Inr s"
  shows "\<exists>full g.
           getRegion s = Inr full \<and>
           region getRegion q s = Inr g \<and>
           (\<forall>p. Region_Contains g p \<longleftrightarrow>
                  Region_Contains full p \<and> IRect_Contains (RoundOut q) p) \<and>
           IRect_encloses (RoundOut q) q \<and>
           (\<forall>i. IRect_encloses i q \<longrightarrow> IRect_within (RoundOut q) i) \<and>
           (Region_isEmpty g \<longleftrightarrow> (\<forall>p. \<not> Region_Contains g p)) \<and>
           (slice_is_empty s \<longrightarrow> Region_isEmpty g)"
proof -
  obtain ops where ops: "getRegion s = Inr (drawn_region ops)" "slice_is_empty s = (ops = [])"
    using end_recording_getRegion [OF assms] by blast
  let ?full = "drawn_region ops"
  let ?g = "MakeIntersection ?full (DlRegion_ctor (RoundOut q))"
  have r: "region getRegion q s = Inr ?g"
    using ops(1) by (rule region_of_getRegion)
  have pts: "\<forall>p. Region_Contains ?g p \<longleftrightarrow>
      Region_Contains ?full p \<and> IRect_Contains (RoundOut q) p"
    by (simp add: Region_Contains_MakeIntersection Region_Contains_ctor)
  have small: "\<forall>i. IRect_encloses i q \<longrightarrow> IRect_within (RoundOut q) i"
    by (simp add: RoundOut_smallest)
  have e: "Region_isEmpty ?g \<longleftrightarrow> (\<forall>p. \<not> Region_Contains ?g p)"
    by (rule Region_isEmpty_MakeIntersection)
  have "Region_isEmpty ?g" if "slice_is_empty s"
  proof -
    have "ops = []" using that ops(2) by simp
    then have "Region_isEmpty ?full" by (simp add: Region_isEmpty_def)
    then show ?thesis by (rule Region_isEmpty_MakeIntersection_left)
  qed
  then have none: "slice_is_empty s \<longrightarrow> Region_isEmpty ?g" by simp
  show ?thesis
    using ops(1) r pts RoundOut_encloses [of q] small e none by blast
qed

lemmas scenario_C_defs =
  recording_def recorded_def rect_0_0_10_10_def rect_20_20_30_30_def rect_5_5_35_35_def

theorem region_after_end_recording_witness:
  "DrawRect rect_0_0_10_10 (DisplayListEmbedderViewSlice_ctor rect_0_0_100_100) =
     Inr (recording [rect_0_0_10_10]) \<and>
   DrawRect rect_20_20_30_30 (recording [rect_0_0_10_10]) =
     Inr (recording [rect_0_0_10_10, rect_20_20_30_30]) \<and>
   end_recording (recording [rect_0_0_10_10, rect_20_20_30_30]) =
     Inr (recorded [rect_0_0_10_10, rect_20_20_30_30]) \<and>
   region getRegion rect_5_5_35_35 (recorded [rect_0_0_10_10, rect_20_20_30_30]) =
     Inr (Region
       [\<lparr>irect_left = 5, irect_top = 5, irect_right = 10, irect_bottom = 10\<rparr>,
        \<lparr>irect_left = 20, irect_top = 20, irect_right = 30, irect_bottom = 30\<rparr>]) \<and>
   \<not> slice_is_empty (recorded [rect_0_0_10_10, rect_20_20_30_30]) \<and>
   end_recording (DisplayListEmbedderViewSlice_ctor rect_0_0_100_100) = Inr (recorded []) \<and>
   slice_is_empty (recorded []) \<and>
   region getRegion rect_5_5_35_35 (recorded []) = Inr (Region [])"
proof -
  have d1: "DrawRect rect_0_0_10_10 (DisplayListEmbedderViewSlice_ctor rect_0_0_100_100) =
      Inr (recording [rect_0_0_10_10])"
    by (simp add: DrawRect_def DisplayListEmbedderViewSlice_ctor_def recording_def)
  have d2: "DrawRect rect_20_20_30_30 (recording [rect_0_0_10_10]) =
      Inr (recording [rect_0_0_10_10, rect_20_20_30_30])"
    by (simp add: DrawRect_def recording_def)
  have e1: "end_recording (recording [rect_0_0_10_10, rect_20_20_30_30]) =
      Inr (recorded [rect_0_0_10_10, rect_20_20_30_30])"
    by (simp add: end_recording_def recording_def recorded_def)
  have e2: "end_recording (DisplayListEmbedderViewSlice_ctor rect_0_0_100_100) =
      Inr (recorded [])"
    by (simp add: end_recording_def DisplayListEmbedderViewSlice_ctor_def recorded_def)
  have r1: "region getRegion rect_5_5_35_35 (recorded [rect_0_0_10_10, rect_20_20_30_30]) =
      Inr (Region
        [\<lparr>irect_left = 5, irect_top = 5, irect_right = 10, irect_bottom = 10\<rparr>,
         \<lparr>irect_left = 20, irect_top = 20, irect_right = 30, irect_bottom = 30\<rparr>])"
    by (simp add: region_def getRegion_def scenario_C_defs RoundOut_def DlRegion_ctor_def
          IRect_IsEmpty_def MakeUnion_def MakeIntersection_def IRect_Intersection_def)
  have n1: "\<not> slice_is_empty (recorded [rect_0_0_10_10, rect_20_20_30_30])"
    by (simp add: slice_is_empty_def recorded_def)
  have n2: "slice_is_empty (recorded [])"
    by (simp add: slice_is_empty_def recorded_def)
  obtain g where g: "region getRegion rect_5_5_35_35 (recorded []) = Inr g"
      "slice_is_empty (recorded []) \<longrightarrow> Region_isEmpty g"
    using region_after_end_recording [OF e2, of rect_5_5_35_35] by blast
  then have "rects g = []" using n2 by (simp add: Region_isEmpty_def)
  then have "g = Region []" by (cases g) simp
  then have r2: "region getRegion rect_5_5_35_35 (recorded []) = Inr (Region [])"
    using g(1) by simp
  show ?thesis using d1 d2 e1 r1 n1 e2 n2 r2 by (intro conjI)
qed

end
